theory Spec2Isabelle
  imports Main
begin

section \<open>Python values, exceptions and the log\<close>

text \<open>
  The module \<^verbatim>\<open>InvenTree/tasks.py\<close> is embedded function by function. Exceptions are
  values: a function that can raise returns \<open>py_error + 'a\<close>, with \<open>Inl\<close> the exception
  that leaves the function.
\<close>

datatype py_error =
    ValueError | TypeError | AttributeError | NameError | UnboundLocalError | SyntaxError
  | ImportError | ModuleNotFoundError | NotSupportedError | OperationalError
  | ProgrammingError | AppRegistryNotReady | OtherError string

text \<open>\<open>isinstance_exc e c\<close>: an \<^verbatim>\<open>except c\<close> clause catches \<open>e\<close> (the class itself or
  a subclass of it, for the classes the module names).\<close>

definition isinstance_exc :: "py_error \<Rightarrow> py_error \<Rightarrow> bool" where
  "isinstance_exc e c \<longleftrightarrow>
     e = c \<or> (e = ModuleNotFoundError \<and> c = ImportError) \<or> (e = UnboundLocalError \<and> c = NameError)"

datatype pyval = PyNone | PyBool bool | PyInt int | PyStr string | PyFunc string

text \<open>Truth value of an object in a condition (\<^verbatim>\<open>if not x\<close>), and \<^verbatim>\<open>callable(x)\<close>.\<close>

fun truthy :: "pyval \<Rightarrow> bool" where
  "truthy PyNone = False"
| "truthy (PyBool b) = b"
| "truthy (PyInt n) = (n \<noteq> 0)"
| "truthy (PyStr s) = (s \<noteq> [])"
| "truthy (PyFunc f) = True"

fun callable :: "pyval \<Rightarrow> bool" where
  "callable (PyFunc f) = True"
| "callable v = False"

datatype level = DEBUG | INFO | WARNING | ERROR

text \<open>The log messages of the module, one constructor per message, with the values its
  f-string interpolates.\<close>

datatype msg =
    IntervalBelowOne string
  | SuccessTooRecent string
  | AttemptTooRecent string
  | LoggingAttempt string
  | ScheduleRegistryNotReady
  | ScheduleAlreadyExists string
  | ScheduleCreating string
  | UpdatesRegistryNotReady
  | CheckingForUpdates
  | VersionNoMatch string
  | LatestVersion string
  | NoOpenMigrations
  | OpenMigrations
  | OpenMigration string
  | GoingIntoMaintenance
  | MaintenanceOn
  | ShuttingDownCluster
  | StartingMigrations
  | MigrationError py_error
  | RanMigrations
  | CheckingLeftMaintenance
  | MaintenanceStillOn
  | ReleasedMaintenance

section \<open>Holdoff tracker\<close>

text \<open>
  Modelled from the spec: the settings store \<^verbatim>\<open>common.models.InvenTreeSetting\<close> is not part
  of the module; it is a key-value store of strings with \<^verbatim>\<open>get_setting(key, default)\<close>
  returning the stored value or the default, and \<^verbatim>\<open>set_setting(key, value, user)\<close>
  overwriting the value.

  Time is the count of microseconds of a naive local \<^verbatim>\<open>datetime\<close>, as
  \<^verbatim>\<open>datetime.now()\<close> gives it. The clock moves only where the code sleeps.
\<close>

record world =
  settings :: "string \<rightharpoonup> string"
  now :: int
  log :: "(level \<times> msg) list"

text \<open>The standard library as the holdoff tracker uses it: \<^verbatim>\<open>datetime.fromisoformat\<close>
  (\<open>None\<close> where it raises \<^verbatim>\<open>ValueError\<close>), \<^verbatim>\<open>datetime.isoformat\<close>, and the value
  that \<^verbatim>\<open>random.randint(1, 5)\<close> returns in this call.\<close>

record stdlib =
  fromisoformat :: "string \<Rightarrow> int option"
  isoformat :: "int \<Rightarrow> string"
  randint :: int

definition get_setting :: "world \<Rightarrow> string \<Rightarrow> string \<Rightarrow> string" where
  "get_setting w key dflt = (case settings w key of None \<Rightarrow> dflt | Some v \<Rightarrow> v)"

definition set_setting :: "string \<Rightarrow> string \<Rightarrow> world \<Rightarrow> world" where
  "set_setting key v w = w\<lparr>settings := (settings w)(key \<mapsto> v)\<rparr>"

definition logger :: "level \<Rightarrow> msg \<Rightarrow> world \<Rightarrow> world" where
  "logger l m w = w\<lparr>log := log w @ [(l, m)]\<rparr>"

definition time_sleep :: "int \<Rightarrow> world \<Rightarrow> world" where
  "time_sleep secs w = w\<lparr>now := now w + secs * 1000000\<rparr>"

definition timedelta_days :: "int \<Rightarrow> int" where
  "timedelta_days n = n * 86400000000"

definition timedelta_hours :: "int \<Rightarrow> int" where
  "timedelta_hours n = n * 3600000000"

definition attempt_key :: "string \<Rightarrow> string" where
  "attempt_key task_name = ''_'' @ task_name @ ''_ATTEMPT''"

definition success_key :: "string \<Rightarrow> string" where
  "success_key task_name = ''_'' @ task_name @ ''_SUCCESS''"

text \<open>
  \<^verbatim>\<open>if last: try: last = datetime.fromisoformat(last) except ValueError: last = None\<close>
  followed by \<^verbatim>\<open>if last:\<close>. The empty string and \<^verbatim>\<open>None\<close> are false, a datetime is
  true.
\<close>

definition parse_stamp :: "stdlib \<Rightarrow> string \<Rightarrow> int option" where
  "parse_stamp lib s = (if s = [] then None else fromisoformat lib s)"

definition record_task_attempt :: "stdlib \<Rightarrow> string \<Rightarrow> world \<Rightarrow> world" where
  "record_task_attempt lib task_name w =
     (let w1 = logger INFO (LoggingAttempt task_name) w
      in set_setting (attempt_key task_name) (isoformat lib (now w1)) w1)"

definition record_task_success :: "stdlib \<Rightarrow> string \<Rightarrow> world \<Rightarrow> world" where
  "record_task_success lib task_name w =
     set_setting (success_key task_name) (isoformat lib (now w)) w"

text \<open>The second half of \<^verbatim>\<open>check_daily_holdoff\<close>: the attempt check and the record.\<close>

definition holdoff_attempt :: "stdlib \<Rightarrow> string \<Rightarrow> world \<Rightarrow> bool \<times> world" where
  "holdoff_attempt lib task_name w =
     (case parse_stamp lib (get_setting w (attempt_key task_name) '''') of
        Some last_attempt \<Rightarrow>
          (if last_attempt > now w - timedelta_hours 12
           then (False, logger INFO (AttemptTooRecent task_name) w)
           else (True, record_task_attempt lib task_name w))
      | None \<Rightarrow> (True, record_task_attempt lib task_name w))"

definition check_daily_holdoff :: "stdlib \<Rightarrow> string \<Rightarrow> int \<Rightarrow> world \<Rightarrow> bool \<times> world" where
  "check_daily_holdoff lib task_name n_days w =
     (if n_days \<le> 0 then (False, logger INFO (IntervalBelowOne task_name) w)
      else
        let w1 = time_sleep (randint lib) w
        in case parse_stamp lib (get_setting w1 (success_key task_name) '''') of
             Some last_success \<Rightarrow>
               (if last_success > now w1 - timedelta_days n_days
                then (False, logger INFO (SuccessTooRecent task_name) w1)
                else holdoff_attempt lib task_name w1)
           | None \<Rightarrow> holdoff_attempt lib task_name w1)"

text \<open>A standard library for the examples: it reads three timestamps of May 2024 and
  rejects every other string.\<close>

definition iso_2024 :: "string \<Rightarrow> int option" where
  "iso_2024 s =
     (if s = ''2024-05-01T18:00:00'' then Some 63850183200000000
      else if s = ''2024-05-01T00:00:00'' then Some 63850118400000000
      else if s = ''2024-04-20T00:00:00'' then Some 63849168000000000
      else None)"

definition lib_2024 :: stdlib where
  "lib_2024 = \<lparr>fromisoformat = iso_2024, isoformat = (\<lambda>t. ''2024-05-02T00:00:03''), randint = 3\<rparr>"

definition world_2024 :: "(string \<rightharpoonup> string) \<Rightarrow> world" where
  "world_2024 s = \<lparr>settings = s, now = 63850204800000000, log = []\<rparr>"

section \<open>Scheduler integration\<close>

text \<open>
  The table of \<^verbatim>\<open>django_q.models.Schedule\<close>: rows in insertion order, each row a map from
  field names to values. \<^verbatim>\<open>filter(func=taskname)\<close> selects the rows whose \<^verbatim>\<open>func\<close> is the
  name; \<^verbatim>\<open>update(**kwargs)\<close> overwrites the given fields of every selected row;
  \<^verbatim>\<open>create(name=..., func=..., **kwargs)\<close> appends a row, and is a \<^verbatim>\<open>TypeError\<close> of the
  call itself when \<^verbatim>\<open>kwargs\<close> repeats one of the two keywords.
\<close>

type_synonym row = "string \<rightharpoonup> pyval"

record sched_db =
  Schedule :: "row list"
  sched_log :: "(level \<times> msg) list"

text \<open>What the surroundings do during one call: the exception (if any) raised by the
  import of \<^verbatim>\<open>Schedule\<close>, by the \<^verbatim>\<open>exists()\<close> query, and by the write.\<close>

record sched_env =
  import_error :: "py_error option"
  query_error :: "py_error option"
  write_error :: "py_error option"

definition has_func :: "string \<Rightarrow> row \<Rightarrow> bool" where
  "has_func taskname r \<longleftrightarrow> r ''func'' = Some (PyStr taskname)"

definition with_repeats :: "row \<Rightarrow> row" where
  "with_repeats kwargs =
     kwargs(''repeats'' \<mapsto> (case kwargs ''repeats'' of None \<Rightarrow> PyInt (- 1) | Some v \<Rightarrow> v))"

definition objects_update :: "string \<Rightarrow> row \<Rightarrow> row list \<Rightarrow> row list" where
  "objects_update taskname kwargs rows =
     map (\<lambda>r. if has_func taskname r then r ++ kwargs else r) rows"

definition objects_create :: "string \<Rightarrow> row \<Rightarrow> row list \<Rightarrow> py_error + row list" where
  "objects_create taskname kwargs rows =
     (if kwargs ''name'' \<noteq> None \<or> kwargs ''func'' \<noteq> None then Inl TypeError
      else Inr (rows @ [kwargs(''name'' \<mapsto> PyStr taskname, ''func'' \<mapsto> PyStr taskname)]))"

definition sched_logger :: "level \<Rightarrow> msg \<Rightarrow> sched_db \<Rightarrow> sched_db" where
  "sched_logger l m db = db\<lparr>sched_log := sched_log db @ [(l, m)]\<rparr>"

text \<open>The body of the second \<^verbatim>\<open>try\<close>, before its \<^verbatim>\<open>except\<close> clause.\<close>

definition schedule_upsert :: "sched_env \<Rightarrow> string \<Rightarrow> row \<Rightarrow> sched_db \<Rightarrow> (py_error + unit) \<times> sched_db" where
  "schedule_upsert env taskname kwargs db =
     (case query_error env of
        Some e \<Rightarrow> (Inl e, db)
      | None \<Rightarrow>
          if list_ex (has_func taskname) (Schedule db) then
            (let db1 = sched_logger DEBUG (ScheduleAlreadyExists taskname) db
             in case write_error env of
                  Some e \<Rightarrow> (Inl e, db1)
                | None \<Rightarrow> (Inr (), db1\<lparr>Schedule := objects_update taskname kwargs (Schedule db1)\<rparr>))
          else
            (let db1 = sched_logger INFO (ScheduleCreating taskname) db
             in case write_error env of
                  Some e \<Rightarrow> (Inl e, db1)
                | None \<Rightarrow>
                    (case objects_create taskname kwargs (Schedule db1) of
                       Inl e \<Rightarrow> (Inl e, db1)
                     | Inr rows \<Rightarrow> (Inr (), db1\<lparr>Schedule := rows\<rparr>))))"

definition schedule_task :: "sched_env \<Rightarrow> string \<Rightarrow> row \<Rightarrow> sched_db \<Rightarrow> (py_error + unit) \<times> sched_db" where
  "schedule_task env taskname kwargs0 db =
     (let kwargs = with_repeats kwargs0
      in case import_error env of
           Some e \<Rightarrow>
             (if isinstance_exc e AppRegistryNotReady
              then (Inr (), sched_logger INFO ScheduleRegistryNotReady db)
              else (Inl e, db))
         | None \<Rightarrow>
             (case schedule_upsert env taskname kwargs db of
                (Inl e, db1) \<Rightarrow>
                  (if isinstance_exc e OperationalError \<or> isinstance_exc e ProgrammingError
                   then (Inr (), db1) else (Inl e, db1))
              | (Inr u, db1) \<Rightarrow> (Inr u, db1)))"

definition sched_ok :: sched_env where
  "sched_ok = \<lparr>import_error = None, query_error = None, write_error = None\<rparr>"

section \<open>Dispatcher\<close>

text \<open>
  The first argument of \<^verbatim>\<open>offload_task\<close> is a callable or a dotted string. The positional
  and keyword arguments are passed through untouched and stay abstract (\<open>'a\<close>).
\<close>

datatype task = TaskFunc string | TaskPath string

datatype warning =
    RegistryNotReady task
  | DatabaseNotReady task
  | FunctionNotFound task
  | MalformedPath task
  | NoModuleNamed task string
  | NoFunctionNamed task string

text \<open>What a call of the dispatcher does to its surroundings, in order: a line in the
  log, a Python warning (under \<^verbatim>\<open>settings.TESTING\<close>), an \<^verbatim>\<open>AsyncTask\<close> handed to the worker
  pool, a function called inline by the dispatcher itself (line 225), and whatever the
  expression given to \<^verbatim>\<open>eval\<close> does while it is evaluated (\<open>DuringEval\<close>).\<close>

datatype 'a event =
    Logged warning
  | Warned warning
  | AsyncRun task 'a
  | Invoke pyval 'a
  | DuringEval "'a event"

text \<open>The imports at the head of \<^verbatim>\<open>offload_task\<close>: they succeed, or one of the two
  \<^verbatim>\<open>from ... import\<close> lines raises (leaving its own name and the later one unbound).\<close>

datatype import_outcome =
    ImportsOk
  | AsyncTask_import_raises py_error
  | is_worker_running_import_raises py_error

text \<open>
  The surroundings of one call. \<open>scope\<close> holds the names that \<^verbatim>\<open>eval\<close> sees inside
  \<^verbatim>\<open>offload_task\<close> (its locals, the globals of the tasks module, the builtins);
  \<open>eval_expr\<close> is the interpreter on every string that is not a plain name: what the
  evaluation does, and the value or the exception it ends with.
\<close>

record 'a offload_env =
  head_imports :: import_outcome
  is_worker_running :: bool
  AsyncTask_run :: "task \<Rightarrow> 'a \<Rightarrow> py_error option"
  import_module :: "string \<Rightarrow> py_error + (string \<rightharpoonup> pyval)"
  scope :: "string \<rightharpoonup> pyval"
  eval_expr :: "string \<Rightarrow> 'a event list \<times> (py_error + pyval)"
  call :: "string \<Rightarrow> 'a \<Rightarrow> py_error option"
  TESTING :: bool

definition raise_warning :: "'a offload_env \<Rightarrow> warning \<Rightarrow> 'a event list" where
  "raise_warning env m = (if TESTING env then [Logged m, Warned m] else [Logged m])"

text \<open>\<^verbatim>\<open>str.split('.')\<close>: the pieces between the dots, empty pieces included.\<close>

fun split_dot :: "string \<Rightarrow> string list" where
  "split_dot [] = [] # []"
| "split_dot (c # cs) =
     (if c = CHR ''.'' then [] # split_dot cs
      else (case split_dot cs of p # ps \<Rightarrow> (c # p) # ps | [] \<Rightarrow> [c] # []))"

text \<open>
  \<^verbatim>\<open>eval(func)\<close>. A plain name (an ASCII identifier that is no keyword) is looked up in
  the scope, which runs nothing: it gives the value bound to the name, or \<^verbatim>\<open>NameError\<close>.
  Any other string is an expression (or a syntax error) and is left to the interpreter.
\<close>

definition kwlist :: "string list" where
  "kwlist =
     [''False'', ''None'', ''True'', ''and'', ''as'', ''assert'', ''async'', ''await'', ''break'',
      ''class'', ''continue'', ''def'', ''del'', ''elif'', ''else'', ''except'', ''finally'', ''for'',
      ''from'', ''global'', ''if'', ''import'', ''in'', ''is'', ''lambda'', ''nonlocal'', ''not'',
      ''or'', ''pass'', ''raise'', ''return'', ''try'', ''while'', ''with'', ''yield'']"

definition is_name_start :: "char \<Rightarrow> bool" where
  "is_name_start c \<longleftrightarrow> c \<in> set ''abcdefghijklmnopqrstuvwxyzABCDEFGHIJKLMNOPQRSTUVWXYZ_''"

definition is_name_char :: "char \<Rightarrow> bool" where
  "is_name_char c \<longleftrightarrow> is_name_start c \<or> c \<in> set ''0123456789''"

definition is_name :: "string \<Rightarrow> bool" where
  "is_name s \<longleftrightarrow>
     (case s of [] \<Rightarrow> False | c # cs \<Rightarrow> is_name_start c \<and> list_all is_name_char cs)
     \<and> s \<notin> set kwlist"

definition py_eval :: "'a offload_env \<Rightarrow> string \<Rightarrow> 'a event list \<times> (py_error + pyval)" where
  "py_eval env s =
     (if is_name s then ([], case scope env s of None \<Rightarrow> Inl NameError | Some v \<Rightarrow> Inr v)
      else eval_expr env s)"

text \<open>The outcome of a block that may return early or raise.\<close>

datatype 'r flow = Next 'r | Return | Raise py_error

text \<open>The \<^verbatim>\<open>else\<close> branch of \<^verbatim>\<open>if callable(taskname)\<close>: from the string to \<^verbatim>\<open>_func\<close>.\<close>

definition resolve_path :: "'a offload_env \<Rightarrow> string \<Rightarrow> pyval flow \<times> 'a event list" where
  "resolve_path env taskname =
     (case split_dot taskname of
        [app, modname, func] \<Rightarrow>
          (let app_mod = app @ ''.'' @ modname
           in case import_module env app_mod of
                Inl e \<Rightarrow>
                  (if isinstance_exc e ModuleNotFoundError
                   then (Return, raise_warning env (NoModuleNamed (TaskPath taskname) app_mod))
                   else (Raise e, []))
              | Inr m \<Rightarrow>
                  (let func0 = (case m func of None \<Rightarrow> PyNone | Some v \<Rightarrow> v)
                   in if \<not> truthy func0 then
                        (case py_eval env func of
                           (evs, Inl e) \<Rightarrow>
                             (if isinstance_exc e NameError
                              then (Return, map DuringEval evs
                                      @ raise_warning env (NoFunctionNamed (TaskPath taskname) func))
                              else (Raise e, map DuringEval evs))
                         | (evs, Inr v) \<Rightarrow> (Next v, map DuringEval evs))
                      else (Next func0, [])))
      | _ \<Rightarrow> (Return, raise_warning env (MalformedPath (TaskPath taskname))))"

text \<open>\<^verbatim>\<open>_func(*args, **kwargs)\<close>: calling what is not callable is a \<^verbatim>\<open>TypeError\<close>; an
  exception of the task body leaves the dispatcher.\<close>

definition invoke :: "'a offload_env \<Rightarrow> pyval \<Rightarrow> 'a \<Rightarrow> (py_error + unit) \<times> 'a event list" where
  "invoke env f args =
     (case f of
        PyFunc name \<Rightarrow>
          (case call env name args of
             None \<Rightarrow> (Inr (), [Invoke f args])
           | Some e \<Rightarrow> (Inl e, [Invoke f args]))
      | _ \<Rightarrow> (Inl TypeError, []))"

definition run_sync :: "'a offload_env \<Rightarrow> task \<Rightarrow> 'a \<Rightarrow> (py_error + unit) \<times> 'a event list" where
  "run_sync env taskname args =
     (case taskname of
        TaskFunc f \<Rightarrow> invoke env (PyFunc f) args
      | TaskPath s \<Rightarrow>
          (case resolve_path env s of
             (Return, evs) \<Rightarrow> (Inr (), evs)
           | (Raise e, evs) \<Rightarrow> (Inl e, evs)
           | (Next f, evs) \<Rightarrow> (case invoke env f args of (r, evs') \<Rightarrow> (r, evs @ evs'))))"

definition run_async :: "'a offload_env \<Rightarrow> task \<Rightarrow> 'a \<Rightarrow> (py_error + unit) \<times> 'a event list" where
  "run_async env taskname args =
     (case AsyncTask_run env taskname args of
        None \<Rightarrow> (Inr (), [AsyncRun taskname args])
      | Some e \<Rightarrow>
          (if isinstance_exc e ImportError
           then (Inr (), AsyncRun taskname args # raise_warning env (FunctionNotFound taskname))
           else (Inl e, [AsyncRun taskname args])))"

text \<open>The body of \<^verbatim>\<open>offload_task\<close> after its imports. \<open>has_AsyncTask\<close> and
  \<open>has_is_worker_running\<close> say whether the two imported names are bound; reading an unbound
  local is an \<^verbatim>\<open>UnboundLocalError\<close>.\<close>

definition offload_body ::
  "'a offload_env \<Rightarrow> bool \<Rightarrow> bool \<Rightarrow> task \<Rightarrow> 'a \<Rightarrow> bool \<Rightarrow> bool \<Rightarrow> (py_error + unit) \<times> 'a event list" where
  "offload_body env has_AsyncTask has_is_worker_running taskname args force_async force_sync =
     (if force_async then
        (if has_AsyncTask then run_async env taskname args else (Inl UnboundLocalError, []))
      else if \<not> has_is_worker_running then (Inl UnboundLocalError, [])
      else if is_worker_running env \<and> \<not> force_sync then
        (if has_AsyncTask then run_async env taskname args else (Inl UnboundLocalError, []))
      else run_sync env taskname args)"

definition import_failure ::
  "'a offload_env \<Rightarrow> py_error \<Rightarrow> bool \<Rightarrow> task \<Rightarrow> 'a \<Rightarrow> bool \<Rightarrow> bool \<Rightarrow> (py_error + unit) \<times> 'a event list" where
  "import_failure env e has_AsyncTask taskname args force_async force_sync =
     (if isinstance_exc e AppRegistryNotReady then (Inr (), [Logged (RegistryNotReady taskname)])
      else if isinstance_exc e OperationalError \<or> isinstance_exc e ProgrammingError then
        (case offload_body env has_AsyncTask False taskname args force_async force_sync of
           (r, evs) \<Rightarrow> (r, raise_warning env (DatabaseNotReady taskname) @ evs))
      else (Inl e, []))"

definition offload_task ::
  "'a offload_env \<Rightarrow> task \<Rightarrow> 'a \<Rightarrow> bool \<Rightarrow> bool \<Rightarrow> (py_error + unit) \<times> 'a event list" where
  "offload_task env taskname args force_async force_sync =
     (case head_imports env of
        ImportsOk \<Rightarrow> offload_body env True True taskname args force_async force_sync
      | AsyncTask_import_raises e \<Rightarrow>
          import_failure env e False taskname args force_async force_sync
      | is_worker_running_import_raises e \<Rightarrow>
          import_failure env e True taskname args force_async force_sync)"

text \<open>Examples: the keyword arguments of a daily schedule and an empty table; a dispatcher
  whose workers are down, with a module \<^verbatim>\<open>a.b\<close> that exports the function \<^verbatim>\<open>c\<close> and an
  attribute \<^verbatim>\<open>d\<close> bound to \<^verbatim>\<open>None\<close>, the module \<^verbatim>\<open>InvenTree.status\<close> that exports
  \<^verbatim>\<open>is_worker_running\<close>, and a scope in which the global \<^verbatim>\<open>heartbeat\<close> of the tasks
  module is bound; the expression \<^verbatim>\<open>heartbeat() or zzz\<close> calls \<^verbatim>\<open>heartbeat\<close>, which
  returns \<^verbatim>\<open>None\<close>, and then fails on the unbound name \<^verbatim>\<open>zzz\<close>.\<close>

definition kwargs_daily :: row where
  "kwargs_daily = [''schedule_type'' \<mapsto> PyStr ''D'', ''repeats'' \<mapsto> PyInt (- 1)]"

definition empty_db :: sched_db where
  "empty_db = \<lparr>Schedule = [], sched_log = []\<rparr>"

definition demo_modules :: "string \<Rightarrow> py_error + (string \<rightharpoonup> pyval)" where
  "demo_modules m =
     (if m = ''InvenTree.status''
      then Inr [''is_worker_running'' \<mapsto> PyFunc ''is_worker_running'']
      else if m = ''a.b'' then Inr [''c'' \<mapsto> PyFunc ''c'', ''d'' \<mapsto> PyNone]
      else Inl ModuleNotFoundError)"

definition demo_env :: "pyval list offload_env" where
  "demo_env =
     \<lparr>head_imports = ImportsOk, is_worker_running = False,
      AsyncTask_run = (\<lambda>t a. None),
      import_module = demo_modules,
      scope = [''heartbeat'' \<mapsto> PyFunc ''heartbeat''],
      eval_expr = (\<lambda>s. if s = ''heartbeat() or zzz''
                        then ([Invoke (PyFunc ''heartbeat'') []], Inl NameError)
                        else ([], Inl SyntaxError)),
      call = (\<lambda>f a. None), TESTING = False\<rparr>"

section \<open>Task registry\<close>

text \<open>The dataclass \<^verbatim>\<open>ScheduledTask\<close>. Its field annotations are not enforced, so each
  field holds any value.\<close>

record ScheduledTask =
  func :: pyval
  interval :: pyval
  minutes :: pyval

definition MINUTES :: pyval where "MINUTES = PyStr ''I''"
definition HOURLY :: pyval where "HOURLY = PyStr ''H''"
definition DAILY :: pyval where "DAILY = PyStr ''D''"
definition WEEKLY :: pyval where "WEEKLY = PyStr ''W''"
definition MONTHLY :: pyval where "MONTHLY = PyStr ''M''"
definition QUARTERLY :: pyval where "QUARTERLY = PyStr ''Q''"
definition YEARLY :: pyval where "YEARLY = PyStr ''Y''"

definition ScheduledTask_TYPE :: "pyval list" where
  "ScheduledTask_TYPE = [MINUTES, HOURLY, DAILY, WEEKLY, MONTHLY, QUARTERLY, YEARLY]"

text \<open>
  The store behind \<^verbatim>\<open>TaskRegister\<close>: list objects by address, the data attributes of the
  class, and one attribute dictionary per instance. An attribute of an instance is looked
  up in the dictionary of the instance first and in the class second.
\<close>

type_synonym addr = nat

record heap =
  lists :: "addr \<rightharpoonup> ScheduledTask list"
  class_dict :: "string \<rightharpoonup> addr"
  inst_dict :: "addr \<rightharpoonup> (string \<rightharpoonup> addr)"
  next_addr :: addr

text \<open>The class statement: \<^verbatim>\<open>task_list: List[ScheduledTask] = []\<close> in the class body.\<close>

definition class_TaskRegister :: heap where
  "class_TaskRegister =
     \<lparr>lists = [0 \<mapsto> []], class_dict = [''task_list'' \<mapsto> 0], inst_dict = Map.empty, next_addr = 1\<rparr>"

text \<open>\<^verbatim>\<open>TaskRegister()\<close>: the class has no \<^verbatim>\<open>__init__\<close>, the new instance has no attribute
  of its own.\<close>

definition new_TaskRegister :: "heap \<Rightarrow> addr \<times> heap" where
  "new_TaskRegister h =
     (next_addr h, h\<lparr>inst_dict := (inst_dict h)(next_addr h \<mapsto> Map.empty), next_addr := Suc (next_addr h)\<rparr>)"

definition getattr_instance :: "heap \<Rightarrow> addr \<Rightarrow> string \<Rightarrow> py_error + addr" where
  "getattr_instance h self name =
     (case inst_dict h self of
        None \<Rightarrow> Inl AttributeError
      | Some d \<Rightarrow>
          (case d name of
             Some a \<Rightarrow> Inr a
           | None \<Rightarrow> (case class_dict h name of Some a \<Rightarrow> Inr a | None \<Rightarrow> Inl AttributeError)))"

definition list_append :: "addr \<Rightarrow> ScheduledTask \<Rightarrow> heap \<Rightarrow> (py_error + unit) \<times> heap" where
  "list_append a x h =
     (case lists h a of
        None \<Rightarrow> (Inl AttributeError, h)
      | Some xs \<Rightarrow> (Inr (), h\<lparr>lists := (lists h)(a \<mapsto> xs @ [x])\<rparr>))"

definition register :: "addr \<Rightarrow> pyval \<Rightarrow> pyval \<Rightarrow> pyval \<Rightarrow> heap \<Rightarrow> (py_error + unit) \<times> heap" where
  "register self task schedule mins h =
     (case getattr_instance h self ''task_list'' of
        Inl e \<Rightarrow> (Inl e, h)
      | Inr a \<Rightarrow> list_append a \<lparr>func = task, interval = schedule, minutes = mins\<rparr> h)"

text \<open>The module level: \<^verbatim>\<open>tasks = TaskRegister()\<close>.\<close>

definition tasks :: addr where
  "tasks = fst (new_TaskRegister class_TaskRegister)"

definition module_heap :: heap where
  "module_heap = snd (new_TaskRegister class_TaskRegister)"

text \<open>\<^verbatim>\<open>scheduled_task(interval, minutes, tasklist)(admin_class)\<close>. An instance of
  \<^verbatim>\<open>TaskRegister\<close> is true in a condition, so \<^verbatim>\<open>tasklist if tasklist else tasks\<close> is the
  given register unless it is \<^verbatim>\<open>None\<close>.\<close>

definition scheduled_task ::
  "pyval \<Rightarrow> pyval \<Rightarrow> addr option \<Rightarrow> pyval \<Rightarrow> heap \<Rightarrow> (py_error + pyval) \<times> heap" where
  "scheduled_task intv mins tasklist admin_class h =
     (if \<not> callable admin_class then (Inl ValueError, h)
      else if intv \<notin> set ScheduledTask_TYPE then (Inl ValueError, h)
      else
        let tasks' = (case tasklist of Some t \<Rightarrow> t | None \<Rightarrow> tasks)
        in case register tasks' admin_class intv mins h of
             (Inl e, h') \<Rightarrow> (Inl e, h')
           | (Inr u, h') \<Rightarrow> (Inr admin_class, h'))"

text \<open>What an instance sees as its \<^verbatim>\<open>task_list\<close>.\<close>

definition task_list :: "heap \<Rightarrow> addr \<Rightarrow> py_error + ScheduledTask list" where
  "task_list h self =
     (case getattr_instance h self ''task_list'' of
        Inl e \<Rightarrow> Inl e
      | Inr a \<Rightarrow> (case lists h a of None \<Rightarrow> Inl AttributeError | Some xs \<Rightarrow> Inr xs))"

text \<open>The stores the module can reach: registers are constructed and tasks registered.\<close>

inductive reachable :: "heap \<Rightarrow> bool" where
  init: "reachable module_heap"
| new: "reachable h \<Longrightarrow> reachable (snd (new_TaskRegister h))"
| reg: "reachable h \<Longrightarrow> reachable (snd (register self task schedule mins h))"

text \<open>The invariant of the reachable stores: the class attribute is bound to the one list,
  and no instance has a \<^verbatim>\<open>task_list\<close> of its own.\<close>

definition heap_inv :: "heap \<Rightarrow> bool" where
  "heap_inv h \<longleftrightarrow>
     class_dict h ''task_list'' = Some 0 \<and> lists h 0 \<noteq> None
     \<and> (\<forall>a d. inst_dict h a = Some d \<longrightarrow> d ''task_list'' = None)"

section \<open>Migration job\<close>

text \<open>
  The state that \<^verbatim>\<open>check_for_migrations\<close> touches: the maintenance flag, the log, the
  lines printed, and how often the plugin registry was reloaded.
\<close>

record site =
  maintenance_mode :: bool
  site_log :: "(level \<times> msg) list"
  stdout :: "string list"
  plugin_reloads :: nat

text \<open>
  The surroundings of one run: the configuration value \<^verbatim>\<open>INVENTREE_AUTO_UPDATE\<close>, the
  migration plan (the names of the pending migrations), the exception (if any) that
  \<^verbatim>\<open>call_command('migrate')\<close> raises, and the database engine of
  \<^verbatim>\<open>settings.DATABASES['default']\<close>. The context manager \<^verbatim>\<open>maintenance_mode_on\<close> belongs
  to a library outside the repository: it sets the flag on entry, and on every exit sets it
  to \<open>on_exit old\<close>, where \<open>old\<close> is the flag before entry.
\<close>

record migration_env =
  auto_update :: bool
  migration_plan :: "string list"
  migrate :: "py_error option"
  ENGINE :: string
  on_exit :: "bool \<Rightarrow> bool"

definition site_logger :: "level \<Rightarrow> msg \<Rightarrow> site \<Rightarrow> site" where
  "site_logger l m s = s\<lparr>site_log := site_log s @ [(l, m)]\<rparr>"

definition print :: "string \<Rightarrow> site \<Rightarrow> site" where
  "print line s = s\<lparr>stdout := stdout s @ [line]\<rparr>"

definition set_maintenance_mode :: "bool \<Rightarrow> site \<Rightarrow> site" where
  "set_maintenance_mode v s = s\<lparr>maintenance_mode := v\<rparr>"

text \<open>The \<^verbatim>\<open>try\<close> statement around \<^verbatim>\<open>call_command('migrate', interactive=False)\<close>.\<close>

definition try_migrate :: "migration_env \<Rightarrow> site \<Rightarrow> (py_error + unit) \<times> site" where
  "try_migrate env s =
     (case migrate env of
        None \<Rightarrow> (Inr (), s)
      | Some e \<Rightarrow>
          if isinstance_exc e NotSupportedError then
            (if ENGINE env \<noteq> ''django.db.backends.sqlite3'' then (Inl e, s)
             else (Inr (), site_logger ERROR (MigrationError e) s))
          else (Inl e, s))"

text \<open>The block \<^verbatim>\<open>with maintenance_mode_on(): ...\<close>; the exit runs on every way out.\<close>

definition with_maintenance :: "migration_env \<Rightarrow> site \<Rightarrow> (py_error + unit) \<times> site" where
  "with_maintenance env s =
     (let old = maintenance_mode s;
          s1 = set_maintenance_mode True s;
          s2 = print ''Starting migrations'' (site_logger INFO StartingMigrations s1)
      in case try_migrate env s2 of
           (Inl e, s3) \<Rightarrow> (Inl e, set_maintenance_mode (on_exit env old) s3)
         | (Inr u, s3) \<Rightarrow>
             (Inr (), set_maintenance_mode (on_exit env old)
                        (site_logger INFO RanMigrations (print ''Migrations done'' s3))))"

definition check_for_migrations :: "migration_env \<Rightarrow> bool \<Rightarrow> site \<Rightarrow> (py_error + unit) \<times> site" where
  "check_for_migrations env worker s =
     (if \<not> auto_update env then (Inr (), s)
      else if migration_plan env = [] then (Inr (), site_logger INFO NoOpenMigrations s)
      else
        let s1 = site_logger INFO OpenMigrations s;
            s2 = fold (\<lambda>migration. site_logger INFO (OpenMigration migration)) (migration_plan env) s1;
            s3 = site_logger INFO GoingIntoMaintenance s2;
            s4 = set_maintenance_mode True s3;
            s5 = site_logger INFO MaintenanceOn s4;
            s6 = (if worker then site_logger INFO ShuttingDownCluster s5 else s5)
        in case with_maintenance env s6 of
             (Inl e, s7) \<Rightarrow> (Inl e, s7)
           | (Inr u, s7) \<Rightarrow>
               (let s8 = site_logger INFO CheckingLeftMaintenance s7;
                    s9 = (if maintenance_mode s8
                          then site_logger INFO ReleasedMaintenance
                                 (set_maintenance_mode False (site_logger WARNING MaintenanceStillOn s8))
                          else s8)
                in (Inr (), s9\<lparr>plugin_reloads := Suc (plugin_reloads s9)\<rparr>)))"

text \<open>Examples: a site out of maintenance, and a run with one pending migration whose
  execution raises \<^verbatim>\<open>NotSupportedError\<close> on the given engine.\<close>

definition demo_site :: site where
  "demo_site = \<lparr>maintenance_mode = False, site_log = [], stdout = [], plugin_reloads = 0\<rparr>"

definition demo_migration :: "string \<Rightarrow> migration_env" where
  "demo_migration engine =
     \<lparr>auto_update = True, migration_plan = [''0001_initial''], migrate = Some NotSupportedError,
      ENGINE = engine, on_exit = (\<lambda>old. False)\<rparr>"

section \<open>Update check\<close>

text \<open>Strings are lists of 8-bit characters; the digits of \<^verbatim>\<open>\d\<close> and of \<^verbatim>\<open>int()\<close> are the
  ASCII digits.\<close>

definition is_digit :: "char \<Rightarrow> bool" where
  "is_digit c \<longleftrightarrow> c \<in> set ''0123456789''"

definition newline :: char where
  "newline = CHR 0x0A"

text \<open>\<^verbatim>\<open>.*$\<close> at the end of the pattern: no newline, except one that ends the string.\<close>

definition match_rest :: "string \<Rightarrow> bool" where
  "match_rest s \<longleftrightarrow> newline \<notin> set s \<or> (s \<noteq> [] \<and> last s = newline \<and> newline \<notin> set (butlast s))"

text \<open>\<^verbatim>\<open>(\d+)\.\<close> at the head of a string: the longest run of digits (a shorter run is
  followed by a digit, not by the dot), a dot, and what follows.\<close>

definition digits_dot :: "string \<Rightarrow> (string \<times> string) option" where
  "digits_dot s =
     (let g = takeWhile is_digit s
      in case dropWhile is_digit s of
           [] \<Rightarrow> None
         | c # r \<Rightarrow> if g \<noteq> [] \<and> c = CHR ''.'' then Some (g, r) else None)"

text \<open>\<^verbatim>\<open>(\d+)\.(\d+)\.(\d+).*$\<close> at the head of a string; the result is \<^verbatim>\<open>groups()\<close>.\<close>

definition match_here :: "string \<Rightarrow> string list option" where
  "match_here s =
     (case digits_dot s of
        None \<Rightarrow> None
      | Some (g1, r1) \<Rightarrow>
          (case digits_dot r1 of
             None \<Rightarrow> None
           | Some (g2, r2) \<Rightarrow>
               (let g3 = takeWhile is_digit r2
                in if g3 \<noteq> [] \<and> match_rest (dropWhile is_digit r2)
                   then Some [g1, g2, g3] else None)))"

text \<open>
  \<^verbatim>\<open>re.match(r"^.*(\d+)\.(\d+)\.(\d+).*$", tag)\<close>: \<open>None\<close> where there is no match, the
  groups otherwise. The leading \<^verbatim>\<open>.*\<close> is greedy and does not cross a newline: it takes
  the next character and goes on where that leads to a match, and stops here otherwise.
\<close>

fun re_match :: "string \<Rightarrow> string list option" where
  "re_match [] = match_here []"
| "re_match (c # cs) =
     (if c = newline then match_here (c # cs)
      else case re_match cs of Some g \<Rightarrow> Some g | None \<Rightarrow> match_here (c # cs))"

text \<open>
  \<^verbatim>\<open>int(s)\<close> for a string: surrounding whitespace is dropped, a sign may lead, and the
  digits may be grouped by single underscores; anything else is a \<^verbatim>\<open>ValueError\<close>.
\<close>

definition is_space :: "char \<Rightarrow> bool" where
  "is_space c \<longleftrightarrow>
     c \<in> set [CHR '' '', CHR 0x09, CHR 0x0A, CHR 0x0B, CHR 0x0C, CHR 0x0D,
               CHR 0x1C, CHR 0x1D, CHR 0x1E, CHR 0x1F]"

definition strip :: "string \<Rightarrow> string" where
  "strip s = rev (dropWhile is_space (rev (dropWhile is_space s)))"

fun valid_digits :: "string \<Rightarrow> bool" where
  "valid_digits [] = False"
| "valid_digits [c] = is_digit c"
| "valid_digits (c # d # cs) =
     (is_digit c \<and> (if d = CHR ''_'' then valid_digits cs else valid_digits (d # cs)))"

definition digits_value :: "string \<Rightarrow> int" where
  "digits_value ds = foldl (\<lambda>a c. 10 * a + (int (of_char c) - 48)) 0 ds"

definition py_int :: "string \<Rightarrow> py_error + int" where
  "py_int s =
     (let t = strip s;
          neg = (t \<noteq> [] \<and> hd t = CHR ''-'');
          body = (if t \<noteq> [] \<and> (hd t = CHR ''-'' \<or> hd t = CHR ''+'') then tl t else t)
      in if valid_digits body
         then Inr ((if neg then - 1 else 1) * digits_value (filter is_digit body))
         else Inl ValueError)"

text \<open>\<^verbatim>\<open>[int(x) for x in groups]\<close>: the first failing conversion raises.\<close>

fun int_each :: "string list \<Rightarrow> py_error + int list" where
  "int_each [] = Inr []"
| "int_each (x # xs) =
     (case py_int x of
        Inl e \<Rightarrow> Inl e
      | Inr n \<Rightarrow> (case int_each xs of Inl e \<Rightarrow> Inl e | Inr ns \<Rightarrow> Inr (n # ns)))"

text \<open>The decoded response body: a JSON object with its members, or another JSON value.\<close>

datatype json = JObject "(string \<times> pyval) list" | JOther

text \<open>
  The surroundings of one update check: the exception (if any) raised by
  \<^verbatim>\<open>import common.models\<close>; the outcome of \<^verbatim>\<open>requests.get\<close> (status code and body; the
  request headers, with the token under \<^verbatim>\<open>settings.TESTING\<close>, only go into the request);
  and \<^verbatim>\<open>json.loads\<close>.
\<close>

record updates_env =
  common_import :: "py_error option"
  requests_get :: "py_error + (int \<times> string)"
  json_loads :: "string \<Rightarrow> py_error + json"

text \<open>Lines 470 to 491: from the tag to the stored version.\<close>

definition parse_and_store :: "stdlib \<Rightarrow> string \<Rightarrow> world \<Rightarrow> (py_error + unit) \<times> world" where
  "parse_and_store lib tag w =
     (case re_match tag of
        None \<Rightarrow> (Inl AttributeError, w)
      | Some groups \<Rightarrow>
          if length groups \<noteq> 3 then (Inr (), logger WARNING (VersionNoMatch tag) w)
          else
            (case int_each groups of
               Inl e \<Rightarrow> (Inl e, w)
             | Inr latest_version \<Rightarrow>
                 if length latest_version \<noteq> 3 then (Inl ValueError, w)
                 else
                   let w1 = logger INFO (LatestVersion tag) w;
                       w2 = set_setting ''_INVENTREE_LATEST_VERSION'' tag w1
                   in (Inr (), record_task_success lib ''check_for_updates'' w2)))"

text \<open>Lines 455 to 468: from the request to the tag. A tag that is true in a condition
  but is no string makes \<^verbatim>\<open>re.match\<close> raise \<^verbatim>\<open>TypeError\<close>.\<close>

definition fetch_tag :: "updates_env \<Rightarrow> py_error + string" where
  "fetch_tag env =
     (case requests_get env of
        Inl e \<Rightarrow> Inl e
      | Inr (status_code, body) \<Rightarrow>
          if status_code \<noteq> 200 then Inl ValueError
          else
            (case json_loads env body of
               Inl e \<Rightarrow> Inl e
             | Inr JOther \<Rightarrow> Inl AttributeError
             | Inr (JObject members) \<Rightarrow>
                 (let tag = (case map_of members ''tag_name'' of None \<Rightarrow> PyNone | Some v \<Rightarrow> v)
                  in if \<not> truthy tag then Inl ValueError
                     else (case tag of PyStr s \<Rightarrow> Inr s | _ \<Rightarrow> Inl TypeError))))"

definition check_for_updates :: "updates_env \<Rightarrow> stdlib \<Rightarrow> world \<Rightarrow> (py_error + unit) \<times> world" where
  "check_for_updates env lib w =
     (case common_import env of
        Some e \<Rightarrow>
          (if isinstance_exc e AppRegistryNotReady
           then (Inr (), logger INFO UpdatesRegistryNotReady w) else (Inl e, w))
      | None \<Rightarrow>
          (case (case settings w ''INVENTREE_UPDATE_CHECK_INTERVAL'' of
                   None \<Rightarrow> Inr 7 | Some s \<Rightarrow> py_int s) of
             Inl e \<Rightarrow> (Inl e, w)
           | Inr intv \<Rightarrow>
               (case check_daily_holdoff lib ''check_for_updates'' intv w of
                  (False, w1) \<Rightarrow> (Inr (), w1)
                | (True, w1) \<Rightarrow>
                    (let w2 = logger INFO CheckingForUpdates w1
                     in case fetch_tag env of
                          Inl e \<Rightarrow> (Inl e, w2)
                        | Inr tag \<Rightarrow> parse_and_store lib tag w2))))"

text \<open>Example: the index answers with status 200 and the given tag.\<close>

definition github_says :: "string \<Rightarrow> updates_env" where
  "github_says tag =
     \<lparr>common_import = None, requests_get = Inr (200, ''{...}''),
      json_loads = (\<lambda>body. Inr (JObject [(''tag_name'', PyStr tag)]))\<rparr>"

section \<open>Properties of the holdoff tracker\<close>

text \<open>
  C6. For every \<open>n_days \<le> 0\<close>, \<^verbatim>\<open>check_daily_holdoff\<close> returns \<open>False\<close> at once and
  mutates no state: the settings store (so neither the attempt nor the success timestamp
  of the task) is written, and the clock has not moved (no sleep was made).
\<close>

theorem holdoff_fails_closed:
  assumes "n_days \<le> 0"
  shows "fst (check_daily_holdoff lib task_name n_days w) = False
       \<and> settings (snd (check_daily_holdoff lib task_name n_days w)) = settings w
       \<and> now (snd (check_daily_holdoff lib task_name n_days w)) = now w"
  using assms by (simp add: check_daily_holdoff_def logger_def)

theorem holdoff_fails_closed_witness:
  "(0::int) \<le> 0
   \<and> fst (check_daily_holdoff lib_2024 ''run_backup'' 0 (world_2024 Map.empty)) = False
   \<and> settings (snd (check_daily_holdoff lib_2024 ''run_backup'' 0 (world_2024 Map.empty)))
       = Map.empty"
  using holdoff_fails_closed [of 0 lib_2024 "''run_backup''" "world_2024 Map.empty"]
  by (simp add: world_2024_def)

text \<open>
  C4. A success timestamp that is present, parses, and lies strictly within \<open>n_days\<close> of
  now (the clock when the store is read, after the sleep) makes \<^verbatim>\<open>check_daily_holdoff\<close>
  return \<open>False\<close>, whatever the attempt timestamp is, and the settings store is left as
  it was: no attempt is recorded.
\<close>

theorem holdoff_recent_success:
  assumes "settings w (success_key task_name) = Some s" and "s \<noteq> []"
    and "fromisoformat lib s = Some last_success"
    and "now (time_sleep (randint lib) w) - last_success < timedelta_days n_days"
  shows "fst (check_daily_holdoff lib task_name n_days w) = False
       \<and> settings (snd (check_daily_holdoff lib task_name n_days w)) = settings w"
proof (cases "n_days \<le> 0")
  case True
  then show ?thesis by (simp add: check_daily_holdoff_def logger_def)
next
  case False
  have "parse_stamp lib (get_setting (time_sleep (randint lib) w) (success_key task_name) [])
          = Some last_success"
    using assms(1-3) by (simp add: parse_stamp_def get_setting_def time_sleep_def)
  moreover have "last_success > now (time_sleep (randint lib) w) - timedelta_days n_days"
    using assms(4) by linarith
  ultimately show ?thesis
    using False by (simp add: check_daily_holdoff_def Let_def logger_def time_sleep_def)
qed

theorem holdoff_recent_success_witness:
  "fst (check_daily_holdoff lib_2024 ''run_backup'' 1
          (world_2024 [success_key ''run_backup'' \<mapsto> ''2024-05-01T18:00:00''])) = False
   \<and> settings (snd (check_daily_holdoff lib_2024 ''run_backup'' 1
          (world_2024 [success_key ''run_backup'' \<mapsto> ''2024-05-01T18:00:00''])))
       = [success_key ''run_backup'' \<mapsto> ''2024-05-01T18:00:00'']"
  using holdoff_recent_success [of "world_2024 [success_key ''run_backup'' \<mapsto> ''2024-05-01T18:00:00'']"
      "''run_backup''" "''2024-05-01T18:00:00''" lib_2024 63850183200000000 1]
  by (simp add: world_2024_def lib_2024_def iso_2024_def time_sleep_def timedelta_days_def)

text \<open>
  C3. Let \<open>n_days > 0\<close> and let no success timestamp lie within the \<open>n_days\<close> window (it
  is absent, does not parse, or is not newer than now minus \<open>n_days\<close>). Then
  \<^verbatim>\<open>check_daily_holdoff\<close> returns \<open>False\<close>, writing nothing, when a valid attempt timestamp
  lies strictly within 12 hours of now; otherwise it writes the attempt timestamp of the
  task, equal to now, leaves every other setting alone, and returns \<open>True\<close>.
\<close>

theorem holdoff_attempt_guard:
  assumes "0 < n_days"
    and "w1 = time_sleep (randint lib) w"
    and "\<forall>t. parse_stamp lib (get_setting w (success_key task_name) []) = Some t
            \<longrightarrow> \<not> now w1 - t < timedelta_days n_days"
    and "r = check_daily_holdoff lib task_name n_days w"
  shows "((\<exists>a. parse_stamp lib (get_setting w (attempt_key task_name) []) = Some a
              \<and> now w1 - a < timedelta_hours 12)
          \<longrightarrow> fst r = False \<and> settings (snd r) = settings w)
       \<and> (\<not> (\<exists>a. parse_stamp lib (get_setting w (attempt_key task_name) []) = Some a
              \<and> now w1 - a < timedelta_hours 12)
          \<longrightarrow> fst r = True
            \<and> settings (snd r) = (settings w)(attempt_key task_name \<mapsto> isoformat lib (now w1)))"
proof -
  have same: "get_setting w1 k d = get_setting w k d" for k d
    using assms(2) by (simp add: get_setting_def time_sleep_def)
  have r: "r = holdoff_attempt lib task_name w1"
    using assms(1,3,4) assms(2) [symmetric] same
    by (auto simp: check_daily_holdoff_def Let_def split: option.splits)
  have s: "settings w1 = settings w" and n: "now (logger l m w1) = now w1" for l m
    using assms(2) by (simp_all add: time_sleep_def logger_def)
  show ?thesis
    unfolding r holdoff_attempt_def same
    by (auto simp: s record_task_attempt_def set_setting_def logger_def Let_def
        split: option.splits)
qed

theorem holdoff_attempt_guard_witness:
  "fst (check_daily_holdoff lib_2024 ''run_backup'' 1
          (world_2024 [attempt_key ''run_backup'' \<mapsto> ''2024-05-01T18:00:00''])) = False
   \<and> fst (check_daily_holdoff lib_2024 ''run_backup'' 1
          (world_2024 [success_key ''run_backup'' \<mapsto> ''2024-04-20T00:00:00''])) = True
   \<and> settings (snd (check_daily_holdoff lib_2024 ''run_backup'' 1
          (world_2024 [success_key ''run_backup'' \<mapsto> ''2024-04-20T00:00:00''])))
       = [success_key ''run_backup'' \<mapsto> ''2024-04-20T00:00:00'',
          attempt_key ''run_backup'' \<mapsto> ''2024-05-02T00:00:03'']"
  using holdoff_attempt_guard [of 1
      "time_sleep 3 (world_2024 [attempt_key ''run_backup'' \<mapsto> ''2024-05-01T18:00:00''])"
      lib_2024 "world_2024 [attempt_key ''run_backup'' \<mapsto> ''2024-05-01T18:00:00'']"
      "''run_backup''" _]
    holdoff_attempt_guard [of 1
      "time_sleep 3 (world_2024 [success_key ''run_backup'' \<mapsto> ''2024-04-20T00:00:00''])"
      lib_2024 "world_2024 [success_key ''run_backup'' \<mapsto> ''2024-04-20T00:00:00'']"
      "''run_backup''" _]
  by (simp add: world_2024_def lib_2024_def iso_2024_def time_sleep_def timedelta_days_def
      timedelta_hours_def parse_stamp_def get_setting_def attempt_key_def success_key_def)

section \<open>Properties of the scheduler integration\<close>

lemma has_func_add: "kw ''func'' = None \<Longrightarrow> has_func t (r ++ kw) = has_func t r"
  by (simp add: has_func_def map_add_def)

lemma filter_update:
  "kw ''func'' = None \<Longrightarrow>
   filter (has_func t) (objects_update t kw rows) = map (\<lambda>r. r ++ kw) (filter (has_func t) rows)"
  by (induction rows) (simp_all add: objects_update_def has_func_add)

lemma filter_not_update:
  "kw ''func'' = None \<Longrightarrow>
   filter (\<lambda>r. \<not> has_func t r) (objects_update t kw rows) = filter (\<lambda>r. \<not> has_func t r) rows"
  by (induction rows) (simp_all add: objects_update_def has_func_add)

lemma with_repeats_other: "k \<noteq> ''repeats'' \<Longrightarrow> with_repeats kw k = kw k"
  by (simp add: with_repeats_def)

lemma has_func_new: "has_func t (kw(''name'' \<mapsto> x, ''func'' \<mapsto> PyStr t))"
  by (simp add: has_func_def)

lemma list_ex_filter: "list_ex P xs \<longleftrightarrow> filter P xs \<noteq> []"
  by (induction xs) auto

lemma schedule_task_exists:
  assumes "list_ex (has_func t) (Schedule db)"
  shows "schedule_task sched_ok t kw db =
    (Inr (), db\<lparr>sched_log := sched_log db @ [(DEBUG, ScheduleAlreadyExists t)],
               Schedule := objects_update t (with_repeats kw) (Schedule db)\<rparr>)"
  using assms
  by (simp add: schedule_task_def schedule_upsert_def sched_ok_def Let_def sched_logger_def)

lemma schedule_task_fresh:
  assumes "\<not> list_ex (has_func t) (Schedule db)" "kw ''name'' = None" "kw ''func'' = None"
  shows "schedule_task sched_ok t kw db =
    (Inr (), db\<lparr>sched_log := sched_log db @ [(INFO, ScheduleCreating t)],
               Schedule := Schedule db @ [(with_repeats kw)(''name'' \<mapsto> PyStr t, ''func'' \<mapsto> PyStr t)]\<rparr>)"
  using assms
  by (simp add: schedule_task_def schedule_upsert_def sched_ok_def Let_def sched_logger_def
      objects_create_def with_repeats_other)

text \<open>
  C7. With the store reachable and at most one row for the name before (the invariant of
  the store: never two rows with the same \<^verbatim>\<open>func\<close>), two calls of \<^verbatim>\<open>schedule_task\<close> for
  one name return normally and leave exactly one row whose \<^verbatim>\<open>func\<close> is the name; that row
  carries every parameter of the second call (with \<^verbatim>\<open>repeats\<close> defaulting to \<open>-1\<close>); rows
  of other names are untouched. A call that finds a row updates it in place; a call that
  finds none appends a row with \<^verbatim>\<open>name = func = taskname\<close>. The keyword arguments are the
  scheduling parameters: they do not rebind \<^verbatim>\<open>name\<close> or \<^verbatim>\<open>func\<close>.
\<close>

theorem schedule_task_idempotent:
  assumes "kw1 ''name'' = None" and "kw1 ''func'' = None"
    and "kw2 ''name'' = None" and "kw2 ''func'' = None"
    and "length (filter (has_func t) (Schedule db)) \<le> 1"
    and "schedule_task sched_ok t kw1 db = (r1, db1)"
    and "schedule_task sched_ok t kw2 db1 = (r2, db2)"
  shows "r1 = Inr () \<and> r2 = Inr ()
       \<and> (\<exists>row. filter (has_func t) (Schedule db2) = [row]
              \<and> (\<forall>k v. with_repeats kw2 k = Some v \<longrightarrow> row k = Some v))
       \<and> filter (\<lambda>r. \<not> has_func t r) (Schedule db2) = filter (\<lambda>r. \<not> has_func t r) (Schedule db)
       \<and> (list_ex (has_func t) (Schedule db) \<longrightarrow>
            Schedule db1 = map (\<lambda>r. if has_func t r then r ++ with_repeats kw1 else r) (Schedule db))
       \<and> (\<not> list_ex (has_func t) (Schedule db) \<longrightarrow>
            Schedule db1 = Schedule db @ [(with_repeats kw1)(''name'' \<mapsto> PyStr t, ''func'' \<mapsto> PyStr t)])
       \<and> Schedule db2 = map (\<lambda>r. if has_func t r then r ++ with_repeats kw2 else r) (Schedule db1)"
proof -
  have f1: "with_repeats kw1 ''func'' = None" and f2: "with_repeats kw2 ''func'' = None"
    using assms(2,4) by (simp_all add: with_repeats_other)
  have one: "\<exists>row. filter (has_func t) (Schedule db1) = [row]"
    and r1: "r1 = Inr ()"
    and rest1: "filter (\<lambda>r. \<not> has_func t r) (Schedule db1) = filter (\<lambda>r. \<not> has_func t r) (Schedule db)"
    and ex1: "list_ex (has_func t) (Schedule db) \<longrightarrow>
            Schedule db1 = map (\<lambda>r. if has_func t r then r ++ with_repeats kw1 else r) (Schedule db)"
    and nex1: "\<not> list_ex (has_func t) (Schedule db) \<longrightarrow>
            Schedule db1 = Schedule db @ [(with_repeats kw1)(''name'' \<mapsto> PyStr t, ''func'' \<mapsto> PyStr t)]"
  proof -
    show "\<exists>row. filter (has_func t) (Schedule db1) = [row]"
    proof (cases "list_ex (has_func t) (Schedule db)")
      case True
      then obtain row where "filter (has_func t) (Schedule db) = [row]"
        using assms(5) by (cases "filter (has_func t) (Schedule db)") (auto simp: list_ex_filter)
      then show ?thesis
        using schedule_task_exists [OF True, of kw1] assms(6) by (auto simp: filter_update f1)
    next
      case False
      then have "filter (has_func t) (Schedule db) = []" by (simp add: list_ex_filter)
      then show ?thesis
        using schedule_task_fresh [OF False assms(1,2)] assms(6) by (auto simp: has_func_new)
    qed
    show "r1 = Inr ()"
      using schedule_task_exists [of t db kw1] schedule_task_fresh [OF _ assms(1,2), of t db] assms(6)
      by (cases "list_ex (has_func t) (Schedule db)") auto
    show "filter (\<lambda>r. \<not> has_func t r) (Schedule db1) = filter (\<lambda>r. \<not> has_func t r) (Schedule db)"
      using schedule_task_exists [of t db kw1] schedule_task_fresh [OF _ assms(1,2), of t db] assms(6)
      by (cases "list_ex (has_func t) (Schedule db)") (auto simp: filter_not_update f1 has_func_new)
    show "list_ex (has_func t) (Schedule db) \<longrightarrow>
            Schedule db1 = map (\<lambda>r. if has_func t r then r ++ with_repeats kw1 else r) (Schedule db)"
      using schedule_task_exists [of t db kw1] assms(6) by (auto simp: objects_update_def)
    show "\<not> list_ex (has_func t) (Schedule db) \<longrightarrow>
            Schedule db1 = Schedule db @ [(with_repeats kw1)(''name'' \<mapsto> PyStr t, ''func'' \<mapsto> PyStr t)]"
      using schedule_task_fresh [OF _ assms(1,2), of t db] assms(6) by auto
  qed
  from one obtain row where row: "filter (has_func t) (Schedule db1) = [row]" by blast
  then have ex: "list_ex (has_func t) (Schedule db1)" by (simp add: list_ex_filter)
  have db2: "db2 = db1\<lparr>sched_log := sched_log db1 @ [(DEBUG, ScheduleAlreadyExists t)],
               Schedule := objects_update t (with_repeats kw2) (Schedule db1)\<rparr>"
    and r2: "r2 = Inr ()"
    using schedule_task_exists [OF ex, of kw2] assms(7) by auto
  have "filter (has_func t) (Schedule db2) = [row ++ with_repeats kw2]"
    using row by (simp add: db2 filter_update f2)
  moreover have "\<forall>k v. with_repeats kw2 k = Some v \<longrightarrow> (row ++ with_repeats kw2) k = Some v"
    by (simp add: map_add_def)
  moreover have "filter (\<lambda>r. \<not> has_func t r) (Schedule db2) = filter (\<lambda>r. \<not> has_func t r) (Schedule db)"
    using rest1 by (simp add: db2 filter_not_update f2)
  moreover have "Schedule db2 = map (\<lambda>r. if has_func t r then r ++ with_repeats kw2 else r) (Schedule db1)"
    by (simp add: db2 objects_update_def)
  ultimately show ?thesis using r1 r2 ex1 nex1 by blast
qed

theorem schedule_task_idempotent_witness:
  "fst (schedule_task sched_ok ''x'' kwargs_daily
          (snd (schedule_task sched_ok ''x'' kwargs_daily empty_db))) = Inr ()
   \<and> length (filter (has_func ''x'') (Schedule (snd (schedule_task sched_ok ''x'' kwargs_daily
          (snd (schedule_task sched_ok ''x'' kwargs_daily empty_db)))))) = 1"
proof -
  have n: "kwargs_daily ''name'' = None" and f: "kwargs_daily ''func'' = None"
    by (simp_all add: kwargs_daily_def)
  have e: "length (filter (has_func ''x'') (Schedule empty_db)) \<le> 1"
    by (simp add: empty_db_def)
  from schedule_task_idempotent [OF n f n f e surjective_pairing surjective_pairing]
  show ?thesis by fastforce
qed

section \<open>Properties of the dispatcher\<close>


lemma offload_sync:
  assumes "head_imports env = ImportsOk" and "\<not> force_async"
    and "\<not> (is_worker_running env \<and> \<not> force_sync)"
  shows "offload_task env taskname args force_async force_sync = run_sync env taskname args"
  using assms by (auto simp: offload_task_def offload_body_def)

lemma offload_async:
  assumes "head_imports env = ImportsOk"
    and "force_async \<or> (is_worker_running env \<and> \<not> force_sync)"
  shows "offload_task env taskname args force_async force_sync = run_async env taskname args"
  using assms by (auto simp: offload_task_def offload_body_def)

lemma resolve_malformed:
  assumes "\<forall>a m f. split_dot s \<noteq> [a, m, f]"
  shows "resolve_path env s = (Return, raise_warning env (MalformedPath (TaskPath s)))"
  using assms by (auto simp: resolve_path_def split: list.splits)

lemma resolve_no_module:
  assumes "split_dot s = [a, m, f]" and "import_module env (a @ ''.'' @ m) = Inl e"
    and "isinstance_exc e ModuleNotFoundError"
  shows "resolve_path env s
           = (Return, raise_warning env (NoModuleNamed (TaskPath s) (a @ ''.'' @ m)))"
  using assms by (simp add: resolve_path_def)

lemma resolve_attribute:
  assumes "split_dot s = [a, m, f]" and "import_module env (a @ ''.'' @ m) = Inr mo"
    and "mo f = Some v" and "truthy v"
  shows "resolve_path env s = (Next v, [])"
  using assms by (simp add: resolve_path_def)

lemma resolve_eval:
  assumes "split_dot s = [a, m, f]" and "import_module env (a @ ''.'' @ m) = Inr mo"
    and "\<forall>v. mo f = Some v \<longrightarrow> \<not> truthy v"
  shows "resolve_path env s =
           (case py_eval env f of
              (evs, Inl e) \<Rightarrow>
                (if isinstance_exc e NameError
                 then (Return, map DuringEval evs
                         @ raise_warning env (NoFunctionNamed (TaskPath s) f))
                 else (Raise e, map DuringEval evs))
            | (evs, Inr v) \<Rightarrow> (Next v, map DuringEval evs))"
proof -
  have "\<not> truthy (case mo f of None \<Rightarrow> PyNone | Some v \<Rightarrow> v)"
    using assms(3) by (cases "mo f") simp_all
  then show ?thesis
    using assms(1,2) by (simp add: resolve_path_def)
qed

lemma py_eval_unbound:
  "is_name f \<Longrightarrow> scope env f = None \<Longrightarrow> py_eval env f = ([], Inl NameError)"
  by (simp add: py_eval_def)

lemma NameError_is_NameError: "isinstance_exc NameError NameError"
  by (simp add: isinstance_exc_def)

lemma ModuleNotFoundError_is: "isinstance_exc ModuleNotFoundError ModuleNotFoundError"
  by (simp add: isinstance_exc_def)

lemma run_sync_returned:
  "resolve_path env s = (Return, evs) \<Longrightarrow> run_sync env (TaskPath s) args = (Inr (), evs)"
  by (simp add: run_sync_def)

lemma run_sync_resolved:
  "resolve_path env s = (Next (PyFunc g), evs) \<Longrightarrow>
   run_sync env (TaskPath s) args
     = ((case call env g args of None \<Rightarrow> Inr () | Some e \<Rightarrow> Inl e),
        evs @ [Invoke (PyFunc g) args])"
  by (simp add: run_sync_def invoke_def split: option.splits)

lemma run_sync_callable:
  "run_sync env (TaskFunc f) args
     = ((case call env f args of None \<Rightarrow> Inr () | Some e \<Rightarrow> Inl e), [Invoke (PyFunc f) args])"
  by (simp add: run_sync_def invoke_def split: option.splits)


lemma demo_env_fields:
  "head_imports demo_env = ImportsOk" "\<not> is_worker_running demo_env"
  "import_module demo_env = demo_modules" "scope demo_env ''heartbeat'' = Some (PyFunc ''heartbeat'')"
  "scope demo_env ''missing'' = None" "scope demo_env ''d'' = None"
  "raise_warning demo_env w = [Logged w]" "call demo_env f a = None"
  "AsyncTask_run demo_env t a = None"
  by (simp_all add: demo_env_def raise_warning_def)


lemma demo_modules_values:
  "demo_modules ''x.y'' = Inl ModuleNotFoundError"
  "demo_modules ''a.b'' = Inr [''c'' \<mapsto> PyFunc ''c'', ''d'' \<mapsto> PyNone]"
  "demo_modules ''InvenTree.status''
     = Inr [''is_worker_running'' \<mapsto> PyFunc ''is_worker_running'']"
  by (simp_all add: demo_modules_def)

lemma demo_names: "is_name ''missing''" "is_name ''d''" "is_name ''heartbeat''"
  "\<not> is_name ''heartbeat() or zzz''"
  by code_simp+



lemma run_async_events:
  "\<exists>ws. snd (run_async env t args) = AsyncRun t args # ws
        \<and> (\<forall>t' a. AsyncRun t' a \<notin> set ws) \<and> (\<forall>f a. Invoke f a \<notin> set ws)
        \<and> (\<forall>e. DuringEval e \<notin> set ws)"
  by (auto simp: run_async_def raise_warning_def split: option.splits)

lemma invoke_events:
  "\<forall>t a. AsyncRun t a \<notin> set (snd (invoke env f args))"
  by (auto simp: invoke_def split: pyval.splits option.splits)

lemma resolve_path_events:
  "AsyncRun t a \<notin> set (snd (resolve_path env s))"
  "fst (resolve_path env s) \<noteq> Next v \<Longrightarrow> Invoke f a \<notin> set (snd (resolve_path env s))"
  by (auto simp: resolve_path_def Let_def raise_warning_def
      split: list.splits sum.splits if_splits prod.splits)

lemma run_sync_events:
  "\<forall>t a. AsyncRun t a \<notin> set (snd (run_sync env taskname args))"
proof (cases taskname)
  case (TaskFunc f)
  then show ?thesis using invoke_events [of env "PyFunc f" args] by (simp add: run_sync_def)
next
  case (TaskPath s)
  obtain fl evs where rp: "resolve_path env s = (fl, evs)" by (cases "resolve_path env s")
  have evs: "\<forall>t a. AsyncRun t a \<notin> set evs"
    using rp resolve_path_events(1) [of _ _ env s] by simp
  show ?thesis
  proof (cases fl)
    case (Next f)
    then show ?thesis
      using TaskPath rp evs invoke_events [of env f args]
      by (auto simp: run_sync_def split: prod.splits)
  qed (use TaskPath rp evs in \<open>auto simp: run_sync_def\<close>)
qed

text \<open>
  C5 (amended). With the imports at the head of the dispatcher done: the task is handed
  to the worker pool (once, with the original arguments, and without an inline call or an
  evaluation) if and only if \<open>force_async\<close> holds, or the worker pool is live and
  \<open>force_sync\<close> does not hold. In every other case nothing is enqueued; a task that is a
  callable, or a string of three pieces whose module imports and exports a function under
  the last piece, is invoked inline, once, with the supplied arguments, and an exception
  of the task leaves the dispatcher; a string that does not resolve (it is malformed, or
  its module is not found, or its name is found neither in the module nor by \<^verbatim>\<open>eval\<close>)
  is not invoked, and the dispatcher returns normally.
\<close>

theorem offload_path_choice:
  assumes "head_imports env = ImportsOk"
    and "r = offload_task env taskname args force_async force_sync"
  shows "((force_async \<or> (is_worker_running env \<and> \<not> force_sync))
            \<longleftrightarrow> AsyncRun taskname args \<in> set (snd r))
       \<and> ((force_async \<or> (is_worker_running env \<and> \<not> force_sync)) \<longrightarrow>
            (\<exists>ws. snd r = AsyncRun taskname args # ws
               \<and> (\<forall>t a. AsyncRun t a \<notin> set ws) \<and> (\<forall>f a. Invoke f a \<notin> set ws)
               \<and> (\<forall>e. DuringEval e \<notin> set ws)))
       \<and> (\<not> (force_async \<or> (is_worker_running env \<and> \<not> force_sync)) \<longrightarrow>
            (\<forall>t a. AsyncRun t a \<notin> set (snd r))
          \<and> (\<forall>f. taskname = TaskFunc f \<longrightarrow>
                r = ((case call env f args of None \<Rightarrow> Inr () | Some e \<Rightarrow> Inl e),
                     [Invoke (PyFunc f) args]))
          \<and> (\<forall>s a m f mo g. taskname = TaskPath s \<and> split_dot s = [a, m, f]
                  \<and> import_module env (a @ ''.'' @ m) = Inr mo \<and> mo f = Some (PyFunc g) \<longrightarrow>
                r = ((case call env g args of None \<Rightarrow> Inr () | Some e \<Rightarrow> Inl e),
                     [Invoke (PyFunc g) args]))
          \<and> (\<forall>s. taskname = TaskPath s
                  \<and> ((\<forall>a m f. split_dot s \<noteq> [a, m, f])
                     \<or> (\<exists>a m f. split_dot s = [a, m, f]
                           \<and> (import_module env (a @ ''.'' @ m) = Inl ModuleNotFoundError
                              \<or> (\<exists>mo evs e. import_module env (a @ ''.'' @ m) = Inr mo
                                    \<and> (\<forall>v. mo f = Some v \<longrightarrow> \<not> truthy v)
                                    \<and> py_eval env f = (evs, Inl e)
                                    \<and> isinstance_exc e NameError)))) \<longrightarrow>
                fst r = Inr () \<and> (\<forall>f a. Invoke f a \<notin> set (snd r))))"
proof (cases "force_async \<or> (is_worker_running env \<and> \<not> force_sync)")
  case True
  then have r: "r = run_async env taskname args"
    using assms offload_async by metis
  obtain ws where ws: "snd r = AsyncRun taskname args # ws"
    and rest: "(\<forall>t a. AsyncRun t a \<notin> set ws) \<and> (\<forall>f a. Invoke f a \<notin> set ws)
               \<and> (\<forall>e. DuringEval e \<notin> set ws)"
    using run_async_events [of env taskname args] unfolding r by blast
  have inside: "AsyncRun taskname args \<in> set (snd r)"
    by (simp add: ws)
  show ?thesis
    apply (intro conjI impI)
    subgoal using True inside by blast
    subgoal using ws rest by blast
    subgoal using True by blast
    subgoal using True by blast
    subgoal using True by blast
    subgoal using True by blast
    done
next
  case False
  then have r: "r = run_sync env taskname args"
    using assms offload_sync by metis
  have a: "\<forall>t a. AsyncRun t a \<notin> set (snd r)"
    unfolding r by (rule run_sync_events)
  have b: "\<forall>f. taskname = TaskFunc f \<longrightarrow>
             r = ((case call env f args of None \<Rightarrow> Inr () | Some e \<Rightarrow> Inl e),
                  [Invoke (PyFunc f) args])"
    unfolding r by (simp add: run_sync_callable)
  have c: "\<forall>s a m f mo g. taskname = TaskPath s \<and> split_dot s = [a, m, f]
              \<and> import_module env (a @ ''.'' @ m) = Inr mo \<and> mo f = Some (PyFunc g) \<longrightarrow>
            r = ((case call env g args of None \<Rightarrow> Inr () | Some e \<Rightarrow> Inl e),
                 [Invoke (PyFunc g) args])"
  proof (intro allI impI, elim conjE)
    fix s a m f mo g
    assume t: "taskname = TaskPath s" and s: "split_dot s = [a, m, f]"
      and i: "import_module env (a @ ''.'' @ m) = Inr mo" and g: "mo f = Some (PyFunc g)"
    have "resolve_path env s = (Next (PyFunc g), [])"
      using resolve_attribute [OF s i g] by simp
    then show "r = ((case call env g args of None \<Rightarrow> Inr () | Some e \<Rightarrow> Inl e),
                    [Invoke (PyFunc g) args])"
      unfolding r t by (simp add: run_sync_resolved)
  qed
  have d: "\<forall>s. taskname = TaskPath s
              \<and> ((\<forall>a m f. split_dot s \<noteq> [a, m, f])
                 \<or> (\<exists>a m f. split_dot s = [a, m, f]
                       \<and> (import_module env (a @ ''.'' @ m) = Inl ModuleNotFoundError
                          \<or> (\<exists>mo evs e. import_module env (a @ ''.'' @ m) = Inr mo
                                \<and> (\<forall>v. mo f = Some v \<longrightarrow> \<not> truthy v)
                                \<and> py_eval env f = (evs, Inl e)
                                \<and> isinstance_exc e NameError)))) \<longrightarrow>
            fst r = Inr () \<and> (\<forall>f a. Invoke f a \<notin> set (snd r))"
  proof (intro allI impI, elim conjE)
    fix s
    assume t: "taskname = TaskPath s"
      and u: "(\<forall>a m f. split_dot s \<noteq> [a, m, f])
           \<or> (\<exists>a m f. split_dot s = [a, m, f]
                 \<and> (import_module env (a @ ''.'' @ m) = Inl ModuleNotFoundError
                    \<or> (\<exists>mo evs e. import_module env (a @ ''.'' @ m) = Inr mo
                          \<and> (\<forall>v. mo f = Some v \<longrightarrow> \<not> truthy v)
                          \<and> py_eval env f = (evs, Inl e)
                          \<and> isinstance_exc e NameError)))"
    have "\<exists>evs. resolve_path env s = (Return, evs)"
      using u
    proof (elim disjE exE conjE)
      assume "\<forall>a m f. split_dot s \<noteq> [a, m, f]"
      then show ?thesis using resolve_malformed by blast
    next
      fix a m f
      assume "split_dot s = [a, m, f]" "import_module env (a @ ''.'' @ m) = Inl ModuleNotFoundError"
      then show ?thesis using resolve_no_module [OF _ _ ModuleNotFoundError_is] by blast
    next
      fix a m f mo evs e
      assume "split_dot s = [a, m, f]" "import_module env (a @ ''.'' @ m) = Inr mo"
        "\<forall>v. mo f = Some v \<longrightarrow> \<not> truthy v" "py_eval env f = (evs, Inl e)"
        "isinstance_exc e NameError"
      then show ?thesis using resolve_eval [of s a m f env mo] by simp
    qed
    then obtain evs where rp: "resolve_path env s = (Return, evs)" ..
    have "\<forall>f a. Invoke f a \<notin> set evs"
      using resolve_path_events(2) [of env s] rp by simp
    then show "fst r = Inr () \<and> (\<forall>f a. Invoke f a \<notin> set (snd r))"
      unfolding r t using run_sync_returned [OF rp] by simp
  qed
  have na: "AsyncRun taskname args \<notin> set (snd r)"
    using a by blast
  show ?thesis
    apply (intro conjI impI)
    subgoal using False na by blast
    subgoal using False by blast
    subgoal by (rule a)
    subgoal by (rule b)
    subgoal by (rule c)
    subgoal by (rule d)
    done
qed

theorem offload_path_choice_witness:
  "AsyncRun (TaskFunc ''send_mail'') [PyStr ''subject'']
      \<in> set (snd (offload_task demo_env (TaskFunc ''send_mail'') [PyStr ''subject''] True False))
   \<and> offload_task demo_env (TaskFunc ''send_mail'') [PyStr ''subject''] False False
      = (Inr (), [Invoke (PyFunc ''send_mail'') [PyStr ''subject'']])
   \<and> offload_task demo_env (TaskPath ''a.b.c'') [PyInt 1] False True
      = (Inr (), [Invoke (PyFunc ''c'') [PyInt 1]])
   \<and> (\<forall>f a. Invoke f a
         \<notin> set (snd (offload_task demo_env (TaskPath ''a.b.missing'') [PyInt 1] False True)))"
proof -
  note choice = offload_path_choice [OF demo_env_fields(1) refl]
  have sync: "\<not> (False \<or> (is_worker_running demo_env \<and> \<not> fs))" for fs
    by (simp add: demo_env_fields)
  have 1: "AsyncRun (TaskFunc ''send_mail'') [PyStr ''subject'']
      \<in> set (snd (offload_task demo_env (TaskFunc ''send_mail'') [PyStr ''subject''] True False))"
    using choice [where taskname = "TaskFunc ''send_mail''" and args = "[PyStr ''subject'']"
        and force_async = True and force_sync = False, THEN conjunct1]
    by simp
  have 2: "offload_task demo_env (TaskFunc ''send_mail'') [PyStr ''subject''] False False
      = (Inr (), [Invoke (PyFunc ''send_mail'') [PyStr ''subject'']])"
    using choice [where taskname = "TaskFunc ''send_mail''" and args = "[PyStr ''subject'']"
        and force_async = False and force_sync = False,
        THEN conjunct2, THEN conjunct2, THEN mp, OF sync,
        THEN conjunct2, THEN conjunct1, rule_format, of "''send_mail''"]
    by (simp add: demo_env_fields)
  have 3: "offload_task demo_env (TaskPath ''a.b.c'') [PyInt 1] False True
      = (Inr (), [Invoke (PyFunc ''c'') [PyInt 1]])"
    using choice [where taskname = "TaskPath ''a.b.c''" and args = "[PyInt 1]"
        and force_async = False and force_sync = True,
        THEN conjunct2, THEN conjunct2, THEN mp, OF sync,
        THEN conjunct2, THEN conjunct2, THEN conjunct1, rule_format,
        of "''a.b.c''" "''a''" "''b''" "''c''" "[''c'' \<mapsto> PyFunc ''c'', ''d'' \<mapsto> PyNone]" "''c''"]
    by (simp add: demo_env_fields demo_modules_values)
  have u: "(\<forall>a m f. split_dot ''a.b.missing'' \<noteq> [a, m, f])
           \<or> (\<exists>a m f. split_dot ''a.b.missing'' = [a, m, f]
                 \<and> (import_module demo_env (a @ ''.'' @ m) = Inl ModuleNotFoundError
                    \<or> (\<exists>mo evs e. import_module demo_env (a @ ''.'' @ m) = Inr mo
                          \<and> (\<forall>v. mo f = Some v \<longrightarrow> \<not> truthy v)
                          \<and> py_eval demo_env f = (evs, Inl e)
                          \<and> isinstance_exc e NameError)))"
    using py_eval_unbound [OF demo_names(1) demo_env_fields(5)] NameError_is_NameError
    by (simp add: demo_env_fields demo_modules_values)
  have 4: "\<forall>f a. Invoke f a
         \<notin> set (snd (offload_task demo_env (TaskPath ''a.b.missing'') [PyInt 1] False True))"
    using choice [where taskname = "TaskPath ''a.b.missing''" and args = "[PyInt 1]"
        and force_async = False and force_sync = True,
        THEN conjunct2, THEN conjunct2, THEN mp, OF sync,
        THEN conjunct2, THEN conjunct2, THEN conjunct2, rule_format, of "''a.b.missing''"] u
    by simp
  show ?thesis using 1 2 3 4 by simp
qed

text \<open>
  C5 as stated fails twice: on the synchronous path a malformed string is not invoked, and
  with the application registry not ready nothing is enqueued even under \<open>force_async\<close>.
\<close>

theorem offload_path_choice_counterexample:
  "\<not> (False \<or> (is_worker_running demo_env \<and> \<not> True))
   \<and> offload_task demo_env (TaskPath ''a.b'') [] False True
       = (Inr (), [Logged (MalformedPath (TaskPath ''a.b''))])
   \<and> offload_task (demo_env\<lparr>head_imports := AsyncTask_import_raises AppRegistryNotReady\<rparr>)
         (TaskFunc ''send_mail'') [] True False
       = (Inr (), [Logged (RegistryNotReady (TaskFunc ''send_mail''))])"
  by (simp add: demo_env_def offload_task_def offload_body_def run_sync_def resolve_path_def
      import_failure_def isinstance_exc_def raise_warning_def Let_def)

section \<open>Properties of the task registry\<close>

lemma reachable_inv: "reachable h \<Longrightarrow> heap_inv h"
proof (induction rule: reachable.induct)
  case init
  show ?case
    by (simp add: module_heap_def new_TaskRegister_def class_TaskRegister_def heap_inv_def)
next
  case (new h)
  then show ?case by (auto simp: new_TaskRegister_def heap_inv_def)
next
  case (reg h self task schedule mins)
  then show ?case
    by (auto simp: register_def list_append_def heap_inv_def getattr_instance_def
        split: sum.splits option.splits)
qed

lemma heap_inv_inst:
  "heap_inv h \<Longrightarrow> inst_dict h a = Some d \<Longrightarrow> d ''task_list'' = None"
  by (simp add: heap_inv_def)

lemma getattr_inv:
  assumes "heap_inv h" and "inst_dict h a \<noteq> None"
  shows "getattr_instance h a ''task_list'' = Inr 0"
proof -
  obtain d where d: "inst_dict h a = Some d" using assms(2) by blast
  then have "d ''task_list'' = None" using assms(1) by (rule heap_inv_inst [rotated])
  moreover have "class_dict h ''task_list'' = Some 0"
    using assms(1) by (simp add: heap_inv_def)
  ultimately show ?thesis
    using d by (simp add: getattr_instance_def)
qed

lemma task_list_inv:
  assumes "heap_inv h" and "inst_dict h a \<noteq> None"
  shows "task_list h a = Inr (the (lists h 0))"
  using assms getattr_inv [OF assms] by (auto simp: task_list_def heap_inv_def)

lemma register_inv:
  assumes "heap_inv h" and "inst_dict h b \<noteq> None"
  shows "register b t s m h =
           (Inr (), h\<lparr>lists := (lists h)(0 \<mapsto> the (lists h 0) @ [\<lparr>func = t, interval = s, minutes = m\<rparr>])\<rparr>)"
  using assms getattr_inv [OF assms] by (auto simp: register_def list_append_def heap_inv_def)

lemma task_list_update:
  assumes "heap_inv h" and "inst_dict h a \<noteq> None"
  shows "task_list (h\<lparr>lists := (lists h)(0 \<mapsto> ys)\<rparr>) a = Inr ys"
proof -
  have "heap_inv (h\<lparr>lists := (lists h)(0 \<mapsto> ys)\<rparr>)"
    using assms(1) by (simp add: heap_inv_def)
  then show ?thesis using task_list_inv [of "h\<lparr>lists := (lists h)(0 \<mapsto> ys)\<rparr>" a] assms(2)
    by simp
qed

text \<open>
  C10. \<^verbatim>\<open>task_list\<close> is an attribute of the class: in every store the module can reach,
  all instances of \<^verbatim>\<open>TaskRegister\<close> see one and the same list. \<^verbatim>\<open>register\<close> called on any
  instance, or on a freshly constructed one, appends to that list as every instance sees
  it, and a second registration of the same callable adds a second entry.
\<close>

theorem task_list_shared:
  assumes "reachable h" and "inst_dict h a \<noteq> None" and "inst_dict h b \<noteq> None"
  shows "\<exists>xs. task_list h a = Inr xs \<and> task_list h b = Inr xs
           \<and> fst (register b t s m h) = Inr ()
           \<and> task_list (snd (register b t s m h)) a
               = Inr (xs @ [\<lparr>func = t, interval = s, minutes = m\<rparr>])
           \<and> task_list (snd (register (fst (new_TaskRegister h)) t s m (snd (new_TaskRegister h)))) a
               = Inr (xs @ [\<lparr>func = t, interval = s, minutes = m\<rparr>])
           \<and> task_list (snd (register b t s m (snd (register b t s m h)))) a
               = Inr (xs @ [\<lparr>func = t, interval = s, minutes = m\<rparr>,
                            \<lparr>func = t, interval = s, minutes = m\<rparr>])"
proof -
  let ?x = "\<lparr>func = t, interval = s, minutes = m\<rparr>"
  let ?h1 = "h\<lparr>lists := (lists h)(0 \<mapsto> the (lists h 0) @ [?x])\<rparr>"
  let ?n = "snd (new_TaskRegister h)"
  have inv: "heap_inv h" using assms(1) by (rule reachable_inv)
  have r1: "register b t s m h = (Inr (), ?h1)"
    using inv assms(3) by (rule register_inv)
  have inv1: "heap_inv ?h1" using inv by (simp add: heap_inv_def)
  have b1: "inst_dict ?h1 b \<noteq> None"
    using assms(3) by simp
  have invn: "heap_inv ?n" using inv by (auto simp: heap_inv_def new_TaskRegister_def)
  have an: "inst_dict ?n a \<noteq> None" and cn: "inst_dict ?n (fst (new_TaskRegister h)) \<noteq> None"
    using assms(2) by (simp_all add: new_TaskRegister_def)
  have ln: "lists ?n = lists h" by (simp add: new_TaskRegister_def)
  have rn: "register (fst (new_TaskRegister h)) t s m ?n
              = (Inr (), ?n\<lparr>lists := (lists ?n)(0 \<mapsto> the (lists ?n 0) @ [?x])\<rparr>)"
    using invn cn by (rule register_inv)
  have r2: "register b t s m ?h1
              = (Inr (), ?h1\<lparr>lists := (lists ?h1)(0 \<mapsto> the (lists ?h1 0) @ [?x])\<rparr>)"
    using inv1 b1 by (rule register_inv)
  have "task_list h a = Inr (the (lists h 0))" and "task_list h b = Inr (the (lists h 0))"
    using inv assms(2,3) by (simp_all add: task_list_inv)
  moreover have "fst (register b t s m h) = Inr ()" by (simp add: r1)
  moreover have "task_list (snd (register b t s m h)) a = Inr (the (lists h 0) @ [?x])"
    unfolding r1 snd_conv using inv assms(2) by (rule task_list_update)
  moreover have "task_list (snd (register (fst (new_TaskRegister h)) t s m ?n)) a
                   = Inr (the (lists h 0) @ [?x])"
    unfolding rn snd_conv using task_list_update [OF invn an] by (simp add: ln)
  moreover have "task_list (snd (register b t s m (snd (register b t s m h)))) a
                   = Inr (the (lists h 0) @ [?x, ?x])"
    unfolding r1 snd_conv r2 using task_list_update [OF inv assms(2)] by simp
  ultimately show ?thesis by blast
qed

theorem task_list_shared_witness:
  "task_list (snd (register (fst (new_TaskRegister module_heap)) (PyFunc ''heartbeat'') MINUTES (PyInt 5)
             (snd (new_TaskRegister module_heap)))) tasks
     = Inr [\<lparr>func = PyFunc ''heartbeat'', interval = MINUTES, minutes = PyInt 5\<rparr>]
   \<and> task_list (snd (register tasks (PyFunc ''heartbeat'') MINUTES (PyInt 5)
             (snd (register tasks (PyFunc ''heartbeat'') MINUTES (PyInt 5) module_heap)))) tasks
     = Inr [\<lparr>func = PyFunc ''heartbeat'', interval = MINUTES, minutes = PyInt 5\<rparr>,
            \<lparr>func = PyFunc ''heartbeat'', interval = MINUTES, minutes = PyInt 5\<rparr>]"
proof -
  have i: "inst_dict module_heap tasks \<noteq> None"
    by (simp add: module_heap_def tasks_def new_TaskRegister_def class_TaskRegister_def)
  have e: "task_list module_heap tasks = Inr []"
    by (simp add: task_list_def getattr_instance_def module_heap_def tasks_def
        new_TaskRegister_def class_TaskRegister_def)
  from task_list_shared [OF reachable.init i i, of "PyFunc ''heartbeat''" MINUTES "PyInt 5"]
  obtain xs where "task_list module_heap tasks = Inr xs"
    and "task_list (snd (register (fst (new_TaskRegister module_heap)) (PyFunc ''heartbeat'') MINUTES
             (PyInt 5) (snd (new_TaskRegister module_heap)))) tasks
           = Inr (xs @ [\<lparr>func = PyFunc ''heartbeat'', interval = MINUTES, minutes = PyInt 5\<rparr>])"
    and "task_list (snd (register tasks (PyFunc ''heartbeat'') MINUTES (PyInt 5)
             (snd (register tasks (PyFunc ''heartbeat'') MINUTES (PyInt 5) module_heap)))) tasks
           = Inr (xs @ [\<lparr>func = PyFunc ''heartbeat'', interval = MINUTES, minutes = PyInt 5\<rparr>,
                        \<lparr>func = PyFunc ''heartbeat'', interval = MINUTES, minutes = PyInt 5\<rparr>])"
    by blast
  then show ?thesis by (simp add: e)
qed

lemma reachable_tasks: "reachable h \<Longrightarrow> inst_dict h tasks \<noteq> None"
proof (induction rule: reachable.induct)
  case init
  show ?case
    by (simp add: module_heap_def tasks_def new_TaskRegister_def class_TaskRegister_def)
next
  case (new h)
  then show ?case by (auto simp: new_TaskRegister_def)
next
  case (reg h self task schedule mins)
  then show ?case
    by (auto simp: register_def list_append_def split: sum.splits option.splits)
qed

text \<open>
  C8 (amended). Registration through the decorator \<^verbatim>\<open>scheduled_task\<close> raises
  \<^verbatim>\<open>ValueError\<close> to the caller, and registers nothing, if the decorated object is not
  callable or the interval is not one of the seven values \<^verbatim>\<open>MINUTES\<close>, \<^verbatim>\<open>HOURLY\<close>,
  \<^verbatim>\<open>DAILY\<close>, \<^verbatim>\<open>WEEKLY\<close>, \<^verbatim>\<open>MONTHLY\<close>, \<^verbatim>\<open>QUARTERLY\<close>, \<^verbatim>\<open>YEARLY\<close>; otherwise it appends
  the task definition to the list of the register (the given one, or the module's
  \<^verbatim>\<open>tasks\<close>) and returns the decorated object.
\<close>

theorem scheduled_task_validates:
  assumes "reachable h"
    and "reg = (case tasklist of Some t \<Rightarrow> t | None \<Rightarrow> tasks)"
    and "inst_dict h reg \<noteq> None"
    and "r = scheduled_task intv mins tasklist admin_class h"
  shows "(\<not> callable admin_class
            \<or> intv \<notin> {MINUTES, HOURLY, DAILY, WEEKLY, MONTHLY, QUARTERLY, YEARLY}
          \<longrightarrow> r = (Inl ValueError, h))
       \<and> (callable admin_class
            \<and> intv \<in> {MINUTES, HOURLY, DAILY, WEEKLY, MONTHLY, QUARTERLY, YEARLY}
          \<longrightarrow> fst r = Inr admin_class
            \<and> (\<exists>xs. task_list h reg = Inr xs
                 \<and> task_list (snd r) reg
                     = Inr (xs @ [\<lparr>func = admin_class, interval = intv, minutes = mins\<rparr>])))"
proof -
  have T: "set ScheduledTask_TYPE = {MINUTES, HOURLY, DAILY, WEEKLY, MONTHLY, QUARTERLY, YEARLY}"
    by (simp add: ScheduledTask_TYPE_def)
  have inv: "heap_inv h" using assms(1) by (rule reachable_inv)
  have bad: "\<not> callable admin_class \<or> intv \<notin> set ScheduledTask_TYPE \<Longrightarrow> r = (Inl ValueError, h)"
    using assms(4) by (auto simp: scheduled_task_def)
  have good: "fst r = Inr admin_class
       \<and> task_list (snd r) reg
             = Inr (the (lists h 0) @ [\<lparr>func = admin_class, interval = intv, minutes = mins\<rparr>])"
    if "callable admin_class" and "intv \<in> set ScheduledTask_TYPE"
  proof -
    have "r = (Inr admin_class,
               h\<lparr>lists := (lists h)(0 \<mapsto> the (lists h 0)
                   @ [\<lparr>func = admin_class, interval = intv, minutes = mins\<rparr>])\<rparr>)"
      using that assms(4) register_inv [OF inv assms(3), of admin_class intv mins]
      by (simp add: scheduled_task_def Let_def assms(2) [symmetric])
    then show ?thesis
      using task_list_update [OF inv assms(3)] by simp
  qed
  show ?thesis
    using bad good task_list_inv [OF inv assms(3)] unfolding T by blast
qed

theorem scheduled_task_validates_witness:
  "scheduled_task DAILY PyNone None (PyInt 3) module_heap = (Inl ValueError, module_heap)
   \<and> scheduled_task (PyStr ''X'') PyNone None (PyFunc ''run_backup'') module_heap
       = (Inl ValueError, module_heap)
   \<and> fst (scheduled_task DAILY PyNone None (PyFunc ''run_backup'') module_heap)
       = Inr (PyFunc ''run_backup'')
   \<and> task_list (snd (scheduled_task DAILY PyNone None (PyFunc ''run_backup'') module_heap)) tasks
       = Inr [\<lparr>func = PyFunc ''run_backup'', interval = DAILY, minutes = PyNone\<rparr>]"
proof -
  have i: "inst_dict module_heap tasks \<noteq> None"
    by (simp add: module_heap_def tasks_def new_TaskRegister_def class_TaskRegister_def)
  have e: "task_list module_heap tasks = Inr []"
    by (simp add: task_list_def getattr_instance_def module_heap_def tasks_def
        new_TaskRegister_def class_TaskRegister_def)
  have x: "PyStr ''X'' \<notin> {MINUTES, HOURLY, DAILY, WEEKLY, MONTHLY, QUARTERLY, YEARLY}"
    by (simp add: MINUTES_def HOURLY_def DAILY_def WEEKLY_def MONTHLY_def QUARTERLY_def
        YEARLY_def)
  have d: "DAILY \<in> {MINUTES, HOURLY, DAILY, WEEKLY, MONTHLY, QUARTERLY, YEARLY}"
    by simp
  have t: "tasks = (case None of Some t \<Rightarrow> t | None \<Rightarrow> tasks)" by simp
  note validates = scheduled_task_validates [OF reachable.init t i refl]
  have 1: "scheduled_task DAILY PyNone None (PyInt 3) module_heap = (Inl ValueError, module_heap)"
    by (rule validates [THEN conjunct1, THEN mp]) simp
  have 2: "scheduled_task (PyStr ''X'') PyNone None (PyFunc ''run_backup'') module_heap
             = (Inl ValueError, module_heap)"
    by (rule validates [THEN conjunct1, THEN mp], rule disjI2, rule x)
  have "callable (PyFunc ''run_backup'')
          \<and> DAILY \<in> {MINUTES, HOURLY, DAILY, WEEKLY, MONTHLY, QUARTERLY, YEARLY}"
    using d by simp
  from validates [THEN conjunct2, THEN mp, OF this, of PyNone]
  have 3: "fst (scheduled_task DAILY PyNone None (PyFunc ''run_backup'') module_heap)
             = Inr (PyFunc ''run_backup'')"
    and 4: "task_list (snd (scheduled_task DAILY PyNone None (PyFunc ''run_backup'') module_heap)) tasks
             = Inr [\<lparr>func = PyFunc ''run_backup'', interval = DAILY, minutes = PyNone\<rparr>]"
    by (simp_all add: e)
  show ?thesis using 1 2 3 4 by simp
qed

text \<open>
  C8 as stated fails for \<^verbatim>\<open>TaskRegister.register\<close>, which checks nothing: an object that
  is not callable, with an interval that is none of the seven, is appended without error.
\<close>

theorem register_unchecked_counterexample:
  "\<not> callable PyNone
   \<and> PyStr ''X'' \<notin> set ScheduledTask_TYPE
   \<and> fst (register tasks PyNone (PyStr ''X'') PyNone module_heap) = Inr ()
   \<and> task_list (snd (register tasks PyNone (PyStr ''X'') PyNone module_heap)) tasks
       = Inr [\<lparr>func = PyNone, interval = PyStr ''X'', minutes = PyNone\<rparr>]"
  by (simp add: ScheduledTask_TYPE_def MINUTES_def HOURLY_def DAILY_def WEEKLY_def MONTHLY_def
      QUARTERLY_def YEARLY_def register_def list_append_def task_list_def getattr_instance_def
      module_heap_def tasks_def new_TaskRegister_def class_TaskRegister_def)

section \<open>Properties of the migration job\<close>

lemma site_log_set_maintenance [simp]:
  "site_log (set_maintenance_mode v s) = site_log s"
  by (simp add: set_maintenance_mode_def)

lemma site_log_print [simp]: "site_log (print l s) = site_log s"
  by (simp add: print_def)

lemma site_log_logger [simp]: "site_log (site_logger l m s) = site_log s @ [(l, m)]"
  by (simp add: site_logger_def)

lemma site_log_fold:
  "set (site_log (fold (\<lambda>migration. site_logger INFO (OpenMigration migration)) ms s))
     = set (site_log s) \<union> (\<lambda>m. (INFO, OpenMigration m)) ` set ms"
  by (induction ms arbitrary: s) auto

text \<open>
  C9. When the apply step is reached (auto-update on, plan not empty) and the migration
  command raises \<^verbatim>\<open>NotSupportedError\<close>: the job returns normally, with the error logged,
  if and only if the database engine is \<^verbatim>\<open>django.db.backends.sqlite3\<close>; with every other
  engine the same error leaves the job, and it is not logged as tolerated.
\<close>

theorem migrations_not_supported:
  assumes "auto_update env" and "migration_plan env \<noteq> []"
    and "migrate env = Some e" and "isinstance_exc e NotSupportedError"
    and "r = check_for_migrations env worker s"
    and "(ERROR, MigrationError e) \<notin> set (site_log s)"
  shows "(fst r = Inr () \<and> (ERROR, MigrationError e) \<in> set (site_log (snd r))
            \<longleftrightarrow> ENGINE env = ''django.db.backends.sqlite3'')
       \<and> (ENGINE env \<noteq> ''django.db.backends.sqlite3''
            \<longrightarrow> fst r = Inl e \<and> (ERROR, MigrationError e) \<notin> set (site_log (snd r)))"
proof (cases "ENGINE env = ''django.db.backends.sqlite3''")
  case True
  then have "fst r = Inr () \<and> (ERROR, MigrationError e) \<in> set (site_log (snd r))"
    using assms(1-5)
    by (simp add: check_for_migrations_def with_maintenance_def try_migrate_def Let_def)
  then show ?thesis using True by simp
next
  case False
  then have "fst r = Inl e \<and> (ERROR, MigrationError e) \<notin> set (site_log (snd r))"
    using assms
    by (auto simp: check_for_migrations_def with_maintenance_def try_migrate_def Let_def
        site_log_fold)
  then show ?thesis using False by simp
qed

theorem migrations_not_supported_witness:
  "fst (check_for_migrations (demo_migration ''django.db.backends.sqlite3'') True demo_site) = Inr ()
   \<and> fst (check_for_migrations (demo_migration ''django.db.backends.postgresql'') True demo_site)
       = Inl NotSupportedError"
proof -
  have i: "isinstance_exc NotSupportedError NotSupportedError"
    by (simp add: isinstance_exc_def)
  have n: "(ERROR, MigrationError NotSupportedError) \<notin> set (site_log demo_site)"
    by (simp add: demo_site_def)
  have a: "auto_update (demo_migration g)" and p: "migration_plan (demo_migration g) \<noteq> []"
    and m: "migrate (demo_migration g) = Some NotSupportedError"
    and g: "ENGINE (demo_migration g) = g" for g
    by (simp_all add: demo_migration_def)
  have ne: "''django.db.backends.postgresql'' \<noteq> ''django.db.backends.sqlite3''" by simp
  from migrations_not_supported [OF a p m i refl n, of "''django.db.backends.sqlite3''" True]
  have 1: "fst (check_for_migrations (demo_migration ''django.db.backends.sqlite3'') True demo_site)
             = Inr ()"
    unfolding g by simp
  from migrations_not_supported [OF a p m i refl n, of "''django.db.backends.postgresql''" True]
  have 2: "fst (check_for_migrations (demo_migration ''django.db.backends.postgresql'') True demo_site)
             = Inl NotSupportedError"
    unfolding g using ne by blast
  show ?thesis using 1 2 by simp
qed

section \<open>Properties of the update check\<close>

lemma re_match_final: "re_match ''v1.2.3-final'' = Some [''1'', ''2'', ''3'']"
  by code_simp

lemma re_match_release_one: "re_match ''release-one'' = None"
  by code_simp

lemma int_each_123: "int_each [''1'', ''2'', ''3''] = Inr [1, 2, 3]"
  by code_simp

lemma holdoff_first_run:
  "check_daily_holdoff lib_2024 ''check_for_updates'' 7 (world_2024 Map.empty)
     = (True, \<lparr>settings = [''_check_for_updates_ATTEMPT'' \<mapsto> ''2024-05-02T00:00:03''],
               now = 63850204803000000,
               log = [(INFO, LoggingAttempt ''check_for_updates'')]\<rparr>)"
  by (simp add: check_daily_holdoff_def holdoff_attempt_def parse_stamp_def get_setting_def
      lib_2024_def world_2024_def time_sleep_def record_task_attempt_def logger_def
      set_setting_def attempt_key_def Let_def)

lemma fetch_tag_github: "tag \<noteq> [] \<Longrightarrow> fetch_tag (github_says tag) = Inr tag"
  by (simp add: fetch_tag_def github_says_def)

text \<open>
  C1. The tag \<^verbatim>\<open>v1.2.3-final\<close> matches with the groups 1, 2, 3, the version \<open>[1, 2, 3]\<close>
  is parsed, the tag is stored as the latest version and the success is recorded. The tag
  \<^verbatim>\<open>release-one\<close> does not match: \<^verbatim>\<open>re.match\<close> gives \<^verbatim>\<open>None\<close>, and
  \<^verbatim>\<open>match.groups()\<close> raises \<^verbatim>\<open>AttributeError\<close>, which leaves the job: the warning of the
  parse failure is never logged. No version and no success are stored in that run.
\<close>

theorem update_check_parsing:
  "re_match ''v1.2.3-final'' = Some [''1'', ''2'', ''3'']
   \<and> int_each [''1'', ''2'', ''3''] = Inr [1, 2, 3]
   \<and> parse_and_store lib ''v1.2.3-final'' w
       = (Inr (), record_task_success lib ''check_for_updates''
                    (set_setting ''_INVENTREE_LATEST_VERSION'' ''v1.2.3-final''
                       (logger INFO (LatestVersion ''v1.2.3-final'') w)))
   \<and> re_match ''release-one'' = None
   \<and> parse_and_store lib ''release-one'' w = (Inl AttributeError, w)
   \<and> check_for_updates (github_says ''release-one'') lib_2024 (world_2024 Map.empty)
       = (Inl AttributeError,
          \<lparr>settings = [''_check_for_updates_ATTEMPT'' \<mapsto> ''2024-05-02T00:00:03''],
           now = 63850204803000000,
           log = [(INFO, LoggingAttempt ''check_for_updates''), (INFO, CheckingForUpdates)]\<rparr>)"
proof -
  have good: "parse_and_store lib ''v1.2.3-final'' w
       = (Inr (), record_task_success lib ''check_for_updates''
                    (set_setting ''_INVENTREE_LATEST_VERSION'' ''v1.2.3-final''
                       (logger INFO (LatestVersion ''v1.2.3-final'') w)))"
    unfolding parse_and_store_def re_match_final
    by (simp add: int_each_123 Let_def del: int_each.simps)
  have bad: "parse_and_store lib ''release-one'' w = (Inl AttributeError, w)" for lib w
    unfolding parse_and_store_def re_match_release_one by simp
  have s: "settings (world_2024 Map.empty) ''INVENTREE_UPDATE_CHECK_INTERVAL'' = None"
    and c: "common_import (github_says ''release-one'') = None"
    by (simp_all add: world_2024_def github_says_def)
  have run: "check_for_updates (github_says ''release-one'') lib_2024 (world_2024 Map.empty)
       = (Inl AttributeError,
          \<lparr>settings = [''_check_for_updates_ATTEMPT'' \<mapsto> ''2024-05-02T00:00:03''],
           now = 63850204803000000,
           log = [(INFO, LoggingAttempt ''check_for_updates''), (INFO, CheckingForUpdates)]\<rparr>)"
    unfolding check_for_updates_def s c
    by (simp add: holdoff_first_run fetch_tag_github bad logger_def)
  show ?thesis
    using re_match_final int_each_123 good re_match_release_one bad run by simp
qed

end
